theory Spec2Isabelle
  imports Main "HOL-Library.Word"
begin

section \<open>The file module of the firmware (app/modules/file.c)\<close>

text \<open>
  The module keeps one file descriptor in the static variable \<open>file_fd\<close> and maps the
  Lua functions of the \<open>file\<close> table to calls of the flash file system driver. The driver
  is not part of the module: it is a parameter of every definition below, a record of
  functions on a driver state of any type. The state of the module is the descriptor, the
  driver's state, and a log of the driver calls issued so far, which lets the theorems speak
  about which driver calls an operation makes.
\<close>

subsection \<open>Values of the script interpreter and outcomes of a call\<close>

type_synonym byte = "8 word"
type_synonym bytes = "byte list"

text \<open>
  An argument or result of a Lua call. A number carries the value that
  \<open>lua_tointeger\<close> gives for it. A table is only ever built by \<open>list\<close>: names to sizes.
\<close>

datatype lua_value =
    LNil
  | LBoolean bool
  | LNumber int
  | LString bytes
  | LTable "(bytes \<times> int) list"

text \<open>
  A Lua C function either raises (\<open>luaL_error\<close>, or \<open>luaL_argerror\<close> with the number of
  the offending argument), or returns the values it pushed. The text that the interpreter
  adds to a message (position, function name, the actual type) is left out.
\<close>

datatype outcome =
    LuaError string
  | ArgError nat string
  | Return "lua_value list"

datatype whence = SEEK_SET | SEEK_CUR | SEEK_END

datatype call =
    FsOpen bytes int int      \<comment> \<open>name, flags, the descriptor or error code returned\<close>
  | FsClose int
  | FsRead int int            \<comment> \<open>descriptor, number of bytes asked for\<close>
  | FsWrite int bytes
  | FsSeek int int whence
  | FsTell int
  | FsFlush int
  | FsFormat
  | SpiffsDir
  | SpiffsStat bytes
  | SpiffsRemove bytes
  | SpiffsRename bytes bytes
  | SpiffsInfo

subsection \<open>What the module takes from its headers and from the driver\<close>

text \<open>
  The constants of \<open>flash_fs.h\<close>, \<open>luaconf.h\<close> and \<open>spiffs.h\<close>, whether plain \<open>char\<close>
  is signed on the target, and the interpreter's conversions between numbers and strings.
\<close>

record platform =
  FS_OPEN_OK :: int
  FS_NAME_MAX_LENGTH :: nat
  LUAL_BUFFERSIZE :: nat
  SPIFFS_OK :: int
  char_signed :: bool
  lua_number2str :: "int \<Rightarrow> bytes"
  lua_str2number :: "bytes \<Rightarrow> int option"

text \<open>
  The driver. \<open>fs_read\<close> returns its count and the contents of the scratch buffer after
  the call, as a function from offsets to bytes (whatever the driver left untouched
  included). \<open>fs_readdir\<close> stands for the whole iteration \<open>SPIFFS_opendir\<close>,
  \<open>SPIFFS_readdir\<close> until it returns no entry, \<open>SPIFFS_closedir\<close>: the entries in order.
\<close>

record 'd driver =
  fs_open :: "bytes \<Rightarrow> int \<Rightarrow> 'd \<Rightarrow> int \<times> 'd"
  fs_close :: "int \<Rightarrow> 'd \<Rightarrow> 'd"
  fs_read :: "int \<Rightarrow> int \<Rightarrow> 'd \<Rightarrow> (int \<times> (nat \<Rightarrow> byte)) \<times> 'd"
  fs_write :: "int \<Rightarrow> bytes \<Rightarrow> 'd \<Rightarrow> nat \<times> 'd"
  fs_seek :: "int \<Rightarrow> int \<Rightarrow> whence \<Rightarrow> 'd \<Rightarrow> int \<times> 'd"
  fs_tell :: "int \<Rightarrow> 'd \<Rightarrow> int"
  fs_flush :: "int \<Rightarrow> 'd \<Rightarrow> int \<times> 'd"
  fs_format :: "'d \<Rightarrow> bool \<times> 'd"
  fs_mode2flag :: "bytes \<Rightarrow> int"
  fs_readdir :: "'d \<Rightarrow> (bytes \<times> int) list"
  SPIFFS_stat :: "bytes \<Rightarrow> 'd \<Rightarrow> int"
  SPIFFS_remove :: "bytes \<Rightarrow> 'd \<Rightarrow> 'd"
  myspiffs_rename :: "bytes \<Rightarrow> bytes \<Rightarrow> 'd \<Rightarrow> int \<times> 'd"
  SPIFFS_info :: "'d \<Rightarrow> int \<times> 32 word \<times> 32 word"
  phys_addr :: "'d \<Rightarrow> 32 word"
  phys_size :: "'d \<Rightarrow> 32 word"

record 'd world =
  file_fd :: int
  drv :: "'d"
  calls :: "call list"

text \<open>\<open>static volatile int file_fd = FS_OPEN_OK - 1;\<close>\<close>

definition init_world :: "platform \<Rightarrow> 'd \<Rightarrow> 'd world" where
  "init_world P d = \<lparr>file_fd = FS_OPEN_OK P - 1, drv = d, calls = []\<rparr>"

definition log :: "call \<Rightarrow> 'd world \<Rightarrow> 'd world" where
  "log c w = w\<lparr>calls := calls w @ [c]\<rparr>"

text \<open>The value of \<open>EOF\<close> in the C library.\<close>

definition EOF :: int where
  "EOF = - 1"

subsection \<open>The auxiliary library of the interpreter\<close>

text \<open>Argument \<open>k\<close> of a call, counted from 1; \<open>None\<close> when the call has fewer arguments.\<close>

definition arg :: "lua_value list \<Rightarrow> nat \<Rightarrow> lua_value option" where
  "arg args k = (if 1 \<le> k \<and> k \<le> length args then Some (args ! (k - 1)) else None)"

definition lua_isnoneornil :: "lua_value list \<Rightarrow> nat \<Rightarrow> bool" where
  "lua_isnoneornil args k = (arg args k = None \<or> arg args k = Some LNil)"

text \<open>\<open>luaL_checklstring\<close>: a string, or a number converted to one; anything else raises.\<close>

definition luaL_checklstring :: "platform \<Rightarrow> lua_value list \<Rightarrow> nat \<Rightarrow> outcome + bytes" where
  "luaL_checklstring P args k =
     (case arg args k of
        Some (LString s) \<Rightarrow> Inr s
      | Some (LNumber x) \<Rightarrow> Inr (lua_number2str P x)
      | _ \<Rightarrow> Inl (ArgError k ''string expected''))"

definition luaL_optstring :: "platform \<Rightarrow> lua_value list \<Rightarrow> nat \<Rightarrow> bytes \<Rightarrow> outcome + bytes" where
  "luaL_optstring P args k def =
     (if lua_isnoneornil args k then Inr def else luaL_checklstring P args k)"

text \<open>\<open>luaL_checkinteger\<close>: a number, or a string that converts to one.\<close>

definition luaL_checkinteger :: "platform \<Rightarrow> lua_value list \<Rightarrow> nat \<Rightarrow> outcome + int" where
  "luaL_checkinteger P args k =
     (case arg args k of
        Some (LNumber x) \<Rightarrow> Inr x
      | Some (LString s) \<Rightarrow>
          (case lua_str2number P s of
             Some x \<Rightarrow> Inr x
           | None \<Rightarrow> Inl (ArgError k ''number expected''))
      | _ \<Rightarrow> Inl (ArgError k ''number expected''))"

definition luaL_optlong :: "platform \<Rightarrow> lua_value list \<Rightarrow> nat \<Rightarrow> int \<Rightarrow> outcome + int" where
  "luaL_optlong P args k def =
     (if lua_isnoneornil args k then Inr def else luaL_checkinteger P args k)"

text \<open>A byte string read as a C string ends at its first NUL.\<close>

definition c_str :: "bytes \<Rightarrow> bytes" where
  "c_str s = takeWhile (\<lambda>b. b \<noteq> 0) s"

definition c_strlen :: "bytes \<Rightarrow> nat" where
  "c_strlen s = length (c_str s)"

text \<open>
  \<open>luaL_checkoption\<close> with a default: the index of the first entry of the list that
  \<open>strcmp\<close> finds equal to the argument.
\<close>

fun find_option :: "bytes \<Rightarrow> bytes list \<Rightarrow> nat \<Rightarrow> nat option" where
  "find_option name [] i = None"
| "find_option name (x # xs) i = (if x = c_str name then Some i else find_option name xs (Suc i))"

definition luaL_checkoption ::
  "platform \<Rightarrow> lua_value list \<Rightarrow> nat \<Rightarrow> bytes \<Rightarrow> bytes list \<Rightarrow> outcome + nat" where
  "luaL_checkoption P args k def lst =
     (case luaL_optstring P args k def of
        Inl e \<Rightarrow> Inl e
      | Inr name \<Rightarrow>
          (case find_option name lst 0 of
             Some i \<Rightarrow> Inr i
           | None \<Rightarrow> Inl (ArgError k ''invalid option'')))"

text \<open>
  The check every function makes on a file name:
  \<open>len < FS_NAME_MAX_LENGTH && c_strlen(fname) == len\<close>.
\<close>

definition filename_ok :: "platform \<Rightarrow> bytes \<Rightarrow> bool" where
  "filename_ok P fname = (length fname < FS_NAME_MAX_LENGTH P \<and> c_strlen fname = length fname)"

text \<open>\<open>lua_pushinteger\<close> of a \<open>u32_t\<close>: the interpreter's integer is a signed 32-bit one.\<close>

definition lua_pushinteger_u32 :: "32 word \<Rightarrow> lua_value" where
  "lua_pushinteger_u32 x = LNumber (sint x)"

subsection \<open>The functions of the module\<close>

definition is_closed :: "platform \<Rightarrow> 'd world \<Rightarrow> bool" where
  "is_closed P w = (FS_OPEN_OK P - 1 = file_fd w)"

text \<open>
  The block \<open>if((FS_OPEN_OK - 1)!=file_fd){ fs_close(file_fd); file_fd = FS_OPEN_OK - 1; }\<close>,
  which is the body of \<open>file_close\<close> and the head of \<open>file_open\<close> and \<open>file_rename\<close>.
\<close>

definition close_if_open :: "platform \<Rightarrow> 'd driver \<Rightarrow> 'd world \<Rightarrow> 'd world" where
  "close_if_open P D w =
     (if FS_OPEN_OK P - 1 \<noteq> file_fd w
      then (log (FsClose (file_fd w)) (w\<lparr>drv := fs_close D (file_fd w) (drv w)\<rparr>))
             \<lparr>file_fd := FS_OPEN_OK P - 1\<rparr>
      else w)"

definition file_open ::
  "platform \<Rightarrow> 'd driver \<Rightarrow> lua_value list \<Rightarrow> 'd world \<Rightarrow> outcome \<times> 'd world" where
  "file_open P D args w =
     (let w1 = close_if_open P D w in
      case luaL_checklstring P args 1 of
        Inl e \<Rightarrow> (e, w1)
      | Inr fname \<Rightarrow>
          if \<not> filename_ok P fname then (ArgError 1 ''filename invalid'', w1)
          else
            (case luaL_optstring P args 2 [0x72] of
               Inl e \<Rightarrow> (e, w1)
             | Inr mode \<Rightarrow>
                 (let flags = fs_mode2flag D (c_str mode);
                      (r, d') = fs_open D fname flags (drv w1);
                      w2 = log (FsOpen fname flags r) (w1\<lparr>drv := d', file_fd := r\<rparr>)
                  in if file_fd w2 < FS_OPEN_OK P
                     then (Return [LNil], w2\<lparr>file_fd := FS_OPEN_OK P - 1\<rparr>)
                     else (Return [LBoolean True], w2))))"

definition file_close ::
  "platform \<Rightarrow> 'd driver \<Rightarrow> lua_value list \<Rightarrow> 'd world \<Rightarrow> outcome \<times> 'd world" where
  "file_close P D args w = (Return [], close_if_open P D w)"

definition file_format ::
  "platform \<Rightarrow> 'd driver \<Rightarrow> lua_value list \<Rightarrow> 'd world \<Rightarrow> outcome \<times> 'd world" where
  "file_format P D args w =
     (let w1 = snd (file_close P D args w);
          (ok, d') = fs_format D (drv w1);
          w2 = log FsFormat (w1\<lparr>drv := d'\<rparr>)
      in if \<not> ok then (LuaError ''Failed to format file system'', w2)
         else (Return [], w2))"

text \<open>\<open>lua_setfield\<close> on the table under construction: a later entry replaces an earlier
  one of the same name.\<close>

definition lua_setfield :: "(bytes \<times> int) list \<Rightarrow> bytes \<times> int \<Rightarrow> (bytes \<times> int) list" where
  "lua_setfield t e = filter (\<lambda>x. fst x \<noteq> c_str (fst e)) t @ [(c_str (fst e), snd e)]"

definition file_list ::
  "platform \<Rightarrow> 'd driver \<Rightarrow> lua_value list \<Rightarrow> 'd world \<Rightarrow> outcome \<times> 'd world" where
  "file_list P D args w =
     (Return [LTable (foldl lua_setfield [] (fs_readdir D (drv w)))], log SpiffsDir w)"

definition file_seek ::
  "platform \<Rightarrow> 'd driver \<Rightarrow> lua_value list \<Rightarrow> 'd world \<Rightarrow> outcome \<times> 'd world" where
  "file_seek P D args w =
     (if FS_OPEN_OK P - 1 = file_fd w then (LuaError ''open a file first'', w)
      else
        case luaL_checkoption P args 1 [0x63, 0x75, 0x72]
               [[0x73, 0x65, 0x74], [0x63, 0x75, 0x72], [0x65, 0x6E, 0x64]] of
          Inl e \<Rightarrow> (e, w)
        | Inr op \<Rightarrow>
            (case luaL_optlong P args 2 0 of
               Inl e \<Rightarrow> (e, w)
             | Inr offset \<Rightarrow>
                 (let (r, d') = fs_seek D (file_fd w) offset ([SEEK_SET, SEEK_CUR, SEEK_END] ! op) (drv w);
                      w1 = log (FsSeek (file_fd w) offset ([SEEK_SET, SEEK_CUR, SEEK_END] ! op))
                             (w\<lparr>drv := d'\<rparr>)
                  in if r < 0 then (Return [LNil], w1)
                     else (Return [LNumber (fs_tell D (file_fd w1) (drv w1))],
                           log (FsTell (file_fd w1)) w1))))"

definition file_exists ::
  "platform \<Rightarrow> 'd driver \<Rightarrow> lua_value list \<Rightarrow> 'd world \<Rightarrow> outcome \<times> 'd world" where
  "file_exists P D args w =
     (case luaL_checklstring P args 1 of
        Inl e \<Rightarrow> (e, w)
      | Inr fname \<Rightarrow>
          if \<not> filename_ok P fname then (ArgError 1 ''filename invalid'', w)
          else (Return [LBoolean (SPIFFS_stat D fname (drv w) = SPIFFS_OK P)],
                log (SpiffsStat fname) w))"

definition file_remove ::
  "platform \<Rightarrow> 'd driver \<Rightarrow> lua_value list \<Rightarrow> 'd world \<Rightarrow> outcome \<times> 'd world" where
  "file_remove P D args w =
     (case luaL_checklstring P args 1 of
        Inl e \<Rightarrow> (e, w)
      | Inr fname \<Rightarrow>
          if \<not> filename_ok P fname then (ArgError 1 ''filename invalid'', w)
          else
            (let w1 = snd (file_close P D args w)
             in (Return [], log (SpiffsRemove fname) (w1\<lparr>drv := SPIFFS_remove D fname (drv w1)\<rparr>))))"

definition file_flush ::
  "platform \<Rightarrow> 'd driver \<Rightarrow> lua_value list \<Rightarrow> 'd world \<Rightarrow> outcome \<times> 'd world" where
  "file_flush P D args w =
     (if FS_OPEN_OK P - 1 = file_fd w then (LuaError ''open a file first'', w)
      else
        (let (r, d') = fs_flush D (file_fd w) (drv w);
             w1 = log (FsFlush (file_fd w)) (w\<lparr>drv := d'\<rparr>)
         in if r = 0 then (Return [LBoolean True], w1) else (Return [LNil], w1)))"

definition file_rename ::
  "platform \<Rightarrow> 'd driver \<Rightarrow> lua_value list \<Rightarrow> 'd world \<Rightarrow> outcome \<times> 'd world" where
  "file_rename P D args w =
     (let w1 = close_if_open P D w in
      case luaL_checklstring P args 1 of
        Inl e \<Rightarrow> (e, w1)
      | Inr oldname \<Rightarrow>
          if \<not> filename_ok P oldname then (ArgError 1 ''filename invalid'', w1)
          else
            (case luaL_checklstring P args 2 of
               Inl e \<Rightarrow> (e, w1)
             | Inr newname \<Rightarrow>
                 if \<not> filename_ok P newname then (ArgError 2 ''filename invalid'', w1)
                 else
                   (let (r, d') = myspiffs_rename D oldname newname (drv w1);
                        w2 = log (SpiffsRename oldname newname) (w1\<lparr>drv := d'\<rparr>)
                    in if SPIFFS_OK P = r then (Return [LBoolean True], w2)
                       else (Return [LBoolean False], w2))))"

definition file_fsinfo ::
  "platform \<Rightarrow> 'd driver \<Rightarrow> lua_value list \<Rightarrow> 'd world \<Rightarrow> outcome \<times> 'd world" where
  "file_fsinfo P D args w =
     (let (rc, total, used) = SPIFFS_info D (drv w);
          w1 = log SpiffsInfo w
      in if rc \<noteq> 0 then (LuaError ''file system failed'', w1)
         else if total > 0x7FFFFFFF \<or> used > 0x7FFFFFFF \<or> used > total
         then (LuaError ''file system error'', w1)
         else (Return [lua_pushinteger_u32 (total - used),
                       lua_pushinteger_u32 used,
                       lua_pushinteger_u32 total], w1))"

text \<open>A plain \<open>char\<close> promoted to \<open>int\<close>, as in \<open>p[i] == end_char\<close> and \<open>(int16_t)end[0]\<close>.\<close>

definition char_value :: "platform \<Rightarrow> byte \<Rightarrow> int" where
  "char_value P b = (if char_signed P then sint b else uint b)"

text \<open>
  The loop \<open>for (i = 0; i < n; ++i) if (p[i] == end_char) { ++i; break; }\<close>, started at
  \<open>i\<close>; the result is the value of \<open>i\<close> after the loop.
\<close>

function scan_delim :: "platform \<Rightarrow> (nat \<Rightarrow> byte) \<Rightarrow> int \<Rightarrow> int \<Rightarrow> int \<Rightarrow> int" where
  "scan_delim P p n end_char i =
     (if i < n
      then (if char_value P (p (nat i)) = end_char then i + 1
            else scan_delim P p n end_char (i + 1))
      else i)"
  by pat_completeness auto
termination
  by (relation "measure (\<lambda>(P, p, n, end_char, i). nat (n - i))") auto

declare scan_delim.simps [simp del]

text \<open>\<open>luaL_addsize(&b, k)\<close> then \<open>luaL_pushresult(&b)\<close>: the first \<open>k\<close> bytes of the buffer.\<close>

definition luaL_pushresult :: "(nat \<Rightarrow> byte) \<Rightarrow> nat \<Rightarrow> bytes" where
  "luaL_pushresult p k = map p [0..<k]"

definition file_g_read ::
  "platform \<Rightarrow> 'd driver \<Rightarrow> int \<Rightarrow> int \<Rightarrow> 'd world \<Rightarrow> outcome \<times> 'd world" where
  "file_g_read P D n0 end_char0 w =
     (let n = (if n0 \<le> 0 \<or> n0 > int (LUAL_BUFFERSIZE P) then int (LUAL_BUFFERSIZE P) else n0);
          end_char = (if end_char0 < 0 \<or> end_char0 > 255 then EOF else end_char0)
      in if FS_OPEN_OK P - 1 = file_fd w then (LuaError ''open a file first'', w)
         else
           (let ((r, p), d') = fs_read D (file_fd w) n (drv w);
                w1 = log (FsRead (file_fd w) n) (w\<lparr>drv := d'\<rparr>);
                i = scan_delim P p r end_char 0
            in if i = 0
               then (let s = luaL_pushresult p 0
                     in (Return (if length s > 0 then [LString s] else []), w1))
               else
                 (let (x, d'') = fs_seek D (file_fd w1) (- (r - i)) SEEK_CUR (drv w1);
                      w2 = log (FsSeek (file_fd w1) (- (r - i)) SEEK_CUR) (w1\<lparr>drv := d''\<rparr>)
                  in (Return [LString (luaL_pushresult p (nat i))], w2))))"

definition lua_isnumber_type :: "lua_value list \<Rightarrow> nat \<Rightarrow> bool" where
  "lua_isnumber_type args k = (case arg args k of Some (LNumber x) \<Rightarrow> True | _ \<Rightarrow> False)"

definition lua_isstring :: "lua_value list \<Rightarrow> nat \<Rightarrow> bool" where
  "lua_isstring args k =
     (case arg args k of Some (LString s) \<Rightarrow> True | Some (LNumber x) \<Rightarrow> True | _ \<Rightarrow> False)"

text \<open>
  \<open>need_len\<close> is \<open>unsigned\<close>: the cast of the integer argument wraps modulo \<open>2^32\<close>.
\<close>

definition file_read ::
  "platform \<Rightarrow> 'd driver \<Rightarrow> lua_value list \<Rightarrow> 'd world \<Rightarrow> outcome \<times> 'd world" where
  "file_read P D args w =
     (if lua_isnumber_type args 1
      then
        (case luaL_checkinteger P args 1 of
           Inl e \<Rightarrow> (e, w)
         | Inr v \<Rightarrow>
             (let need_len = v mod 2 ^ 32;
                  need_len' = (if need_len > int (LUAL_BUFFERSIZE P)
                               then int (LUAL_BUFFERSIZE P) else need_len)
              in file_g_read P D need_len' EOF w))
      else if lua_isstring args 1
      then
        (case luaL_checklstring P args 1 of
           Inl e \<Rightarrow> (e, w)
         | Inr end \<Rightarrow>
             if length end \<noteq> 1 then (LuaError ''wrong arg range'', w)
             else file_g_read P D (int (LUAL_BUFFERSIZE P)) (char_value P (end ! 0)) w)
      else file_g_read P D (int (LUAL_BUFFERSIZE P)) EOF w)"

text \<open>The first argument is a string that is not exactly one byte long.\<close>

definition bad_delimiter :: "lua_value list \<Rightarrow> bool" where
  "bad_delimiter args = (case arg args 1 of Some (LString s) \<Rightarrow> length s \<noteq> 1 | _ \<Rightarrow> False)"

definition file_readline ::
  "platform \<Rightarrow> 'd driver \<Rightarrow> lua_value list \<Rightarrow> 'd world \<Rightarrow> outcome \<times> 'd world" where
  "file_readline P D args w = file_g_read P D (int (LUAL_BUFFERSIZE P)) 10 w"

definition file_write ::
  "platform \<Rightarrow> 'd driver \<Rightarrow> lua_value list \<Rightarrow> 'd world \<Rightarrow> outcome \<times> 'd world" where
  "file_write P D args w =
     (if FS_OPEN_OK P - 1 = file_fd w then (LuaError ''open a file first'', w)
      else
        case luaL_checklstring P args 1 of
          Inl e \<Rightarrow> (e, w)
        | Inr s \<Rightarrow>
            (let (rl, d') = fs_write D (file_fd w) s (drv w);
                 w1 = log (FsWrite (file_fd w) s) (w\<lparr>drv := d'\<rparr>)
             in if rl = length s then (Return [LBoolean True], w1)
                else (Return [LNil], w1)))"

definition file_writeline ::
  "platform \<Rightarrow> 'd driver \<Rightarrow> lua_value list \<Rightarrow> 'd world \<Rightarrow> outcome \<times> 'd world" where
  "file_writeline P D args w =
     (if FS_OPEN_OK P - 1 = file_fd w then (LuaError ''open a file first'', w)
      else
        case luaL_checklstring P args 1 of
          Inl e \<Rightarrow> (e, w)
        | Inr s \<Rightarrow>
            (let (rl, d') = fs_write D (file_fd w) s (drv w);
                 w1 = log (FsWrite (file_fd w) s) (w\<lparr>drv := d'\<rparr>)
             in if rl = length s
                then
                  (let (rl', d'') = fs_write D (file_fd w1) [10] (drv w1);
                       w2 = log (FsWrite (file_fd w1) [10]) (w1\<lparr>drv := d''\<rparr>)
                   in if rl' = 1 then (Return [LBoolean True], w2)
                      else (Return [LNil], w2))
                else (Return [LNil], w1)))"

definition file_fscfg ::
  "platform \<Rightarrow> 'd driver \<Rightarrow> lua_value list \<Rightarrow> 'd world \<Rightarrow> outcome \<times> 'd world" where
  "file_fscfg P D args w =
     (Return [lua_pushinteger_u32 (phys_addr D (drv w)),
              lua_pushinteger_u32 (phys_size D (drv w))], w)"

subsection \<open>The function map and scripts\<close>

definition file_map ::
  "platform \<Rightarrow> 'd driver \<Rightarrow>
   (string \<times> (lua_value list \<Rightarrow> 'd world \<Rightarrow> outcome \<times> 'd world)) list" where
  "file_map P D =
     [(''list'', file_list P D),
      (''open'', file_open P D),
      (''close'', file_close P D),
      (''write'', file_write P D),
      (''writeline'', file_writeline P D),
      (''read'', file_read P D),
      (''readline'', file_readline P D),
      (''format'', file_format P D),
      (''remove'', file_remove P D),
      (''seek'', file_seek P D),
      (''flush'', file_flush P D),
      (''rename'', file_rename P D),
      (''fsinfo'', file_fsinfo P D),
      (''fscfg'', file_fscfg P D),
      (''exists'', file_exists P D)]"

text \<open>A script calls \<open>file.name(args)\<close>; a name that is not in the map is a nil value.\<close>

definition lua_call ::
  "platform \<Rightarrow> 'd driver \<Rightarrow> string \<Rightarrow> lua_value list \<Rightarrow> 'd world \<Rightarrow> outcome \<times> 'd world" where
  "lua_call P D name args w =
     (case map_of (file_map P D) name of
        Some f \<Rightarrow> f args w
      | None \<Rightarrow> (LuaError ''attempt to call a nil value'', w))"

text \<open>
  A sequence of calls, each run to completion; the state of the module survives an error
  raised by a call.
\<close>

fun run :: "platform \<Rightarrow> 'd driver \<Rightarrow> (string \<times> lua_value list) list \<Rightarrow> 'd world \<Rightarrow> 'd world" where
  "run P D [] w = w"
| "run P D (c # cs) w = run P D cs (snd (lua_call P D (fst c) (snd c) w))"

subsection \<open>The descriptors that the driver has handed out and not got back\<close>

fun track :: "platform \<Rightarrow> int list \<Rightarrow> call \<Rightarrow> int list" where
  "track P hs (FsOpen name flags r) = (if FS_OPEN_OK P \<le> r then r # hs else hs)"
| "track P hs (FsClose fd) = remove1 fd hs"
| "track P hs c = hs"

definition open_handles :: "platform \<Rightarrow> call list \<Rightarrow> int list" where
  "open_handles P cs = foldl (track P) [] cs"

text \<open>The descriptors outstanding at the driver are exactly the one the module holds.\<close>

definition handles_inv :: "platform \<Rightarrow> 'd world \<Rightarrow> bool" where
  "handles_inv P w =
     (open_handles P (calls w) = (if is_closed P w then [] else [file_fd w]))"

subsection \<open>A platform and a driver to run the module on\<close>

text \<open>
  One file in memory with a position. A write stores at most \<open>cap\<close> bytes, so that a
  small \<open>cap\<close> gives a driver whose writes fall short. The platform has the values of the
  firmware's headers; its two conversions are not exercised.
\<close>

record ramfile =
  content :: bytes
  pos :: nat

definition ram_read :: "int \<Rightarrow> int \<Rightarrow> ramfile \<Rightarrow> (int \<times> (nat \<Rightarrow> byte)) \<times> ramfile" where
  "ram_read fd n s =
     (let chunk = take (nat n) (drop (pos s) (content s))
      in ((int (length chunk), (\<lambda>i. if i < length chunk then chunk ! i else 0)),
          s\<lparr>pos := pos s + length chunk\<rparr>))"

definition ram_write :: "nat \<Rightarrow> int \<Rightarrow> bytes \<Rightarrow> ramfile \<Rightarrow> nat \<times> ramfile" where
  "ram_write cap fd bs s =
     (let ws = take cap bs
      in (length ws,
          s\<lparr>content := take (pos s) (content s) @ ws @ drop (pos s + length ws) (content s),
            pos := pos s + length ws\<rparr>))"

definition ram_seek :: "int \<Rightarrow> int \<Rightarrow> whence \<Rightarrow> ramfile \<Rightarrow> int \<times> ramfile" where
  "ram_seek fd off wh s =
     (let base = (case wh of SEEK_SET \<Rightarrow> 0 | SEEK_CUR \<Rightarrow> int (pos s)
                  | SEEK_END \<Rightarrow> int (length (content s)));
          np = base + off
      in if np < 0 then (- 1, s) else (np, s\<lparr>pos := nat np\<rparr>))"

definition ram_driver :: "nat \<Rightarrow> ramfile driver" where
  "ram_driver cap =
     \<lparr>fs_open = (\<lambda>name flags s. (1, s\<lparr>pos := 0\<rparr>)),
      fs_close = (\<lambda>fd s. s),
      fs_read = ram_read,
      fs_write = ram_write cap,
      fs_seek = ram_seek,
      fs_tell = (\<lambda>fd s. int (pos s)),
      fs_flush = (\<lambda>fd s. (0, s)),
      fs_format = (\<lambda>s. (True, s\<lparr>content := [], pos := 0\<rparr>)),
      fs_mode2flag = (\<lambda>m. 0),
      fs_readdir = (\<lambda>s. [([0x61], int (length (content s)))]),
      SPIFFS_stat = (\<lambda>name s. 0),
      SPIFFS_remove = (\<lambda>name s. s\<lparr>content := [], pos := 0\<rparr>),
      myspiffs_rename = (\<lambda>old new s. (0, s)),
      SPIFFS_info = (\<lambda>s. (0, 1000, word_of_nat (length (content s)))),
      phys_addr = (\<lambda>s. 0x100000),
      phys_size = (\<lambda>s. 0x10000)\<rparr>"

definition esp :: platform where
  "esp =
     \<lparr>FS_OPEN_OK = 1, FS_NAME_MAX_LENGTH = 32, LUAL_BUFFERSIZE = 1024, SPIFFS_OK = 0,
      char_signed = False, lua_number2str = (\<lambda>x. []), lua_str2number = (\<lambda>s. None)\<rparr>"

text \<open>An open session on a file that holds the three bytes \<open>x\<close>, newline, \<open>y\<close>.\<close>

definition xny :: "ramfile world" where
  "xny = \<lparr>file_fd = 1, drv = \<lparr>content = [0x78, 0x0A, 0x79], pos = 0\<rparr>, calls = []\<rparr>"

section \<open>Properties\<close>

subsection \<open>Unsigned 32-bit counts within the signed range\<close>

lemma sint_small: "uint (x :: 32 word) \<le> 2147483647 \<Longrightarrow> sint x = uint x"
proof -
  assume a: "uint x \<le> 2147483647"
  have "(- (2 ^ 31) :: int) \<le> 0" by simp
  also have "0 \<le> uint x" by simp
  finally have lo: "- (2 ^ 31) \<le> uint x" .
  have hi: "uint x < 2 ^ 31" using a by simp
  have "signed_take_bit 31 (uint x) = uint x"
    using lo hi by (rule signed_take_bit_int_eq_self)
  then show ?thesis by (simp add: sint_uint)
qed

lemma gt_max_iff: "(0x7FFFFFFF < (x :: 32 word)) = (2 ^ 31 - 1 < uint x)"
  by (simp add: word_less_alt)

lemma uint_diff_le: "uint (b :: 32 word) \<le> uint a \<Longrightarrow> uint (a - b) = uint a - uint b"
  by (simp add: uint_sub_lem [symmetric])

lemma fsinfo_cases:
  assumes "SPIFFS_info D (drv w) = (rc, tot, usd)"
  shows "fst (file_fsinfo P D args w) =
          (if rc \<noteq> 0 then LuaError ''file system failed''
           else if 2 ^ 31 - 1 < uint tot \<or> 2 ^ 31 - 1 < uint usd \<or> uint tot < uint usd
           then LuaError ''file system error''
           else Return [LNumber (uint tot - uint usd), LNumber (uint usd), LNumber (uint tot)])"
proof -
  have small: "sint (tot - usd) = uint tot - uint usd"
    if a: "uint tot \<le> 2147483647" and b: "uint usd \<le> uint tot"
  proof -
    have e: "uint (tot - usd) = uint tot - uint usd" using b by (rule uint_diff_le)
    have "uint tot - uint usd \<le> uint tot" using uint_ge_0 [of usd] by linarith
    then have "uint (tot - usd) \<le> 2147483647" using a e by linarith
    then show ?thesis using e by (simp add: sint_small)
  qed
  show ?thesis
    using assms small
    by (auto simp: file_fsinfo_def Let_def lua_pushinteger_u32_def gt_max_iff sint_small
         word_less_alt not_less)
qed

subsection \<open>The delimiter scan\<close>

lemma scan_delim_none:
  "\<forall>j. i \<le> j \<and> j < n \<longrightarrow> char_value P (p (nat j)) \<noteq> e \<Longrightarrow>
   scan_delim P p n e i = (if i < n then n else i)"
proof (induction P p n e i rule: scan_delim.induct)
  case (1 P p n e i)
  show ?case
  proof (cases "i < n")
    case True
    then have ne: "char_value P (p (nat i)) \<noteq> e" using "1.prems" by simp
    have "scan_delim P p n e (i + 1) = (if i + 1 < n then n else i + 1)"
      using "1.IH" [OF True ne] "1.prems" by simp
    then show ?thesis using True ne by (subst scan_delim.simps) auto
  next
    case False
    then show ?thesis by (subst scan_delim.simps) simp
  qed
qed

lemma scan_delim_first:
  "i \<le> k \<Longrightarrow> k < n \<Longrightarrow> char_value P (p (nat k)) = e \<Longrightarrow>
   \<forall>j. i \<le> j \<and> j < k \<longrightarrow> char_value P (p (nat j)) \<noteq> e \<Longrightarrow>
   scan_delim P p n e i = k + 1"
proof (induction P p n e i rule: scan_delim.induct)
  case (1 P p n e i)
  have lt: "i < n" using "1.prems" by simp
  show ?case
  proof (cases "i = k")
    case True
    then show ?thesis using "1.prems" lt by (subst scan_delim.simps) simp
  next
    case False
    then have ik: "i < k" using "1.prems" by simp
    then have ne: "char_value P (p (nat i)) \<noteq> e" using "1.prems" by simp
    have "scan_delim P p n e (i + 1) = k + 1"
      using "1.IH" [OF lt ne] ik "1.prems" by simp
    then show ?thesis using lt ne by (subst scan_delim.simps) simp
  qed
qed

lemma scan_delim_nonpos: "n \<le> 0 \<Longrightarrow> scan_delim P p n e 0 = 0"
  by (subst scan_delim.simps) simp

lemma scan_delim_pos: "0 \<le> i \<Longrightarrow> i < n \<Longrightarrow> i < scan_delim P p n e i \<and> scan_delim P p n e i \<le> n"
proof (induction P p n e i rule: scan_delim.induct)
  case (1 P p n e i)
  have step: "scan_delim P p n e i =
      (if char_value P (p (nat i)) = e then i + 1 else scan_delim P p n e (i + 1))"
    using "1.prems" by (subst scan_delim.simps) simp
  show ?case
  proof (cases "char_value P (p (nat i)) = e")
    case True
    then show ?thesis using "1.prems" step by simp
  next
    case False
    show ?thesis
    proof (cases "i + 1 < n")
      case True
      then show ?thesis using "1.IH" [OF "1.prems"(2) False] "1.prems" False step
        by auto
    next
      case False2: False
      have "scan_delim P p n e (i + 1) = i + 1" using False2 by (subst scan_delim.simps) simp
      then show ?thesis using "1.prems" False step by auto
    qed
  qed
qed

lemma scan_delim_zero_iff: "(scan_delim P p n e 0 = 0) = (n \<le> 0)"
  using scan_delim_pos [of 0 n P p e] scan_delim_nonpos [of n P p e]
  by (cases "n \<le> 0") auto

lemma g_read_open:
  assumes op: "\<not> is_closed P w"
    and rd: "fs_read D (file_fd w)
               (if n0 \<le> 0 \<or> n0 > int (LUAL_BUFFERSIZE P) then int (LUAL_BUFFERSIZE P) else n0)
               (drv w) = ((r, p), d')"
    and e: "e = (if e0 < 0 \<or> e0 > 255 then EOF else e0)"
    and n: "n = (if n0 \<le> 0 \<or> n0 > int (LUAL_BUFFERSIZE P) then int (LUAL_BUFFERSIZE P) else n0)"
    and i: "i = scan_delim P p r e 0"
  shows "fst (file_g_read P D n0 e0 w) =
           (if i = 0 then Return [] else Return [LString (luaL_pushresult p (nat i))])"
    and "calls (snd (file_g_read P D n0 e0 w)) =
           calls w @ (if i = 0 then [FsRead (file_fd w) n]
                      else [FsRead (file_fd w) n, FsSeek (file_fd w) (- (r - i)) SEEK_CUR])"
    and "file_fd (snd (file_g_read P D n0 e0 w)) = file_fd w"
  using op rd e n i
  by (simp_all add: file_g_read_def is_closed_def Let_def log_def luaL_pushresult_def
        split: prod.splits)


lemma pushresult_nth: "j < k \<Longrightarrow> luaL_pushresult p k ! j = p j"
  by (simp add: luaL_pushresult_def)

lemma pushresult_length: "length (luaL_pushresult p k) = k"
  by (simp add: luaL_pushresult_def)

lemma pushresult_take: "k \<le> m \<Longrightarrow> take k (luaL_pushresult p m) = luaL_pushresult p k"
  by (simp add: luaL_pushresult_def take_map)

lemma scan_first_nat:
  assumes us: "\<not> char_signed P"
    and i: "i < nat r" and at: "p i = d" and before: "\<forall>j<i. p j \<noteq> d"
  shows "scan_delim P p r (uint d) 0 = int i + 1"
proof -
  have "\<forall>j. 0 \<le> j \<and> j < int i \<longrightarrow> char_value P (p (nat j)) \<noteq> uint d"
  proof (intro allI impI)
    fix j :: int
    assume "0 \<le> j \<and> j < int i"
    then have "nat j < i" by linarith
    then have "p (nat j) \<noteq> d" using before by blast
    then show "char_value P (p (nat j)) \<noteq> uint d"
      using us by (simp add: char_value_def word_uint_eq_iff)
  qed
  moreover have "char_value P (p (nat (int i))) = uint d" using us at by (simp add: char_value_def)
  moreover have "int i < r" using i by linarith
  ultimately show ?thesis using scan_delim_first [of 0 "int i" r P p "uint d"] by simp
qed

lemma scan_none_nat:
  assumes us: "\<not> char_signed P" and none: "\<forall>j<nat r. p j \<noteq> d"
  shows "scan_delim P p r (uint d) 0 = (if 0 < r then r else 0)"
proof -
  have "\<forall>j. 0 \<le> j \<and> j < r \<longrightarrow> char_value P (p (nat j)) \<noteq> uint d"
  proof (intro allI impI)
    fix j :: int
    assume "0 \<le> j \<and> j < r"
    then have "nat j < nat r" by linarith
    then have "p (nat j) \<noteq> d" using none by blast
    then show "char_value P (p (nat j)) \<noteq> uint d"
      using us by (simp add: char_value_def word_uint_eq_iff)
  qed
  then show ?thesis by (rule scan_delim_none)
qed

lemma scan_eof_unsigned:
  assumes us: "\<not> char_signed P"
  shows "scan_delim P p r EOF 0 = (if 0 < r then r else 0)"
proof -
  have "uint b \<noteq> - 1" for b :: byte
    using uint_ge_0 [of b] by linarith
  then have "\<forall>j. 0 \<le> j \<and> j < r \<longrightarrow> char_value P (p (nat j)) \<noteq> EOF"
    using us by (simp add: char_value_def EOF_def)
  then show ?thesis by (rule scan_delim_none)
qed

subsection \<open>The outstanding descriptors under every operation\<close>

lemma open_handles_snoc: "open_handles P (cs @ [c]) = track P (open_handles P cs) c"
  by (simp add: open_handles_def)

lemma close_if_open_closed: "is_closed P (close_if_open P D w)"
  by (simp add: close_if_open_def is_closed_def log_def)

lemma close_if_open_calls:
  "calls (close_if_open P D w) = calls w @ (if is_closed P w then [] else [FsClose (file_fd w)])"
  by (simp add: close_if_open_def is_closed_def log_def)

lemma close_if_open_inv: "handles_inv P w \<Longrightarrow> handles_inv P (close_if_open P D w)"
  by (simp add: handles_inv_def close_if_open_def is_closed_def log_def open_handles_snoc)

lemma closed_handles: "handles_inv P w \<Longrightarrow> is_closed P w \<Longrightarrow> open_handles P (calls w) = []"
  by (simp add: handles_inv_def)

lemma file_open_inv: "handles_inv P w \<Longrightarrow> handles_inv P (snd (file_open P D args w))"
proof -
  assume inv: "handles_inv P w"
  let ?w1 = "close_if_open P D w"
  have i1: "handles_inv P ?w1" using inv by (rule close_if_open_inv)
  have c1: "is_closed P ?w1" by (rule close_if_open_closed)
  have e1: "open_handles P (calls ?w1) = []" using i1 c1 by (rule closed_handles)
  have fd1: "file_fd ?w1 = FS_OPEN_OK P - 1" using c1 by (simp add: is_closed_def)
  show ?thesis
    using i1 e1 fd1
    by (auto simp: file_open_def Let_def handles_inv_def is_closed_def log_def open_handles_snoc
          split: sum.splits prod.splits)
qed

lemma file_close_inv: "handles_inv P w \<Longrightarrow> handles_inv P (snd (file_close P D args w))"
  by (simp add: file_close_def close_if_open_inv)

lemma inv_log_other:
  "handles_inv P w \<Longrightarrow> track P (open_handles P (calls w)) c = open_handles P (calls w) \<Longrightarrow>
   handles_inv P (log c (w\<lparr>drv := d\<rparr>))"
  by (simp add: handles_inv_def is_closed_def log_def open_handles_snoc)

lemma inv_log_other': 
  "handles_inv P w \<Longrightarrow> track P (open_handles P (calls w)) c = open_handles P (calls w) \<Longrightarrow>
   handles_inv P (log c w)"
  by (simp add: handles_inv_def is_closed_def log_def open_handles_snoc)

lemma file_format_inv: "handles_inv P w \<Longrightarrow> handles_inv P (snd (file_format P D args w))"
  using close_if_open_inv [of P w D]
  by (auto simp: file_format_def file_close_def Let_def inv_log_other split: prod.splits)

lemma file_list_inv: "handles_inv P w \<Longrightarrow> handles_inv P (snd (file_list P D args w))"
  by (simp add: file_list_def inv_log_other')

lemma file_seek_inv: "handles_inv P w \<Longrightarrow> handles_inv P (snd (file_seek P D args w))"
  by (auto simp: file_seek_def Let_def inv_log_other inv_log_other' split: prod.splits sum.splits)

lemma file_exists_inv: "handles_inv P w \<Longrightarrow> handles_inv P (snd (file_exists P D args w))"
  by (auto simp: file_exists_def Let_def inv_log_other' split: sum.splits)

lemma file_remove_inv: "handles_inv P w \<Longrightarrow> handles_inv P (snd (file_remove P D args w))"
  using close_if_open_inv [of P w D]
  by (auto simp: file_remove_def file_close_def Let_def inv_log_other split: sum.splits)

lemma file_flush_inv: "handles_inv P w \<Longrightarrow> handles_inv P (snd (file_flush P D args w))"
  by (auto simp: file_flush_def Let_def inv_log_other split: prod.splits)

lemma file_rename_inv: "handles_inv P w \<Longrightarrow> handles_inv P (snd (file_rename P D args w))"
  using close_if_open_inv [of P w D]
  by (auto simp: file_rename_def Let_def inv_log_other split: sum.splits prod.splits)

lemma file_fsinfo_inv: "handles_inv P w \<Longrightarrow> handles_inv P (snd (file_fsinfo P D args w))"
  by (auto simp: file_fsinfo_def Let_def inv_log_other' split: prod.splits)

lemma file_g_read_inv: "handles_inv P w \<Longrightarrow> handles_inv P (snd (file_g_read P D n e w))"
  by (auto simp: file_g_read_def Let_def inv_log_other split: prod.splits)

lemma file_read_inv: "handles_inv P w \<Longrightarrow> handles_inv P (snd (file_read P D args w))"
  by (auto simp: file_read_def Let_def file_g_read_inv split: sum.splits)

lemma file_readline_inv: "handles_inv P w \<Longrightarrow> handles_inv P (snd (file_readline P D args w))"
  by (simp add: file_readline_def file_g_read_inv)

lemma file_write_inv: "handles_inv P w \<Longrightarrow> handles_inv P (snd (file_write P D args w))"
  by (auto simp: file_write_def Let_def inv_log_other split: sum.splits prod.splits)

lemma file_writeline_inv: "handles_inv P w \<Longrightarrow> handles_inv P (snd (file_writeline P D args w))"
  by (auto simp: file_writeline_def Let_def inv_log_other split: sum.splits prod.splits)

lemma file_fscfg_inv: "handles_inv P w \<Longrightarrow> handles_inv P (snd (file_fscfg P D args w))"
  by (simp add: file_fscfg_def)

lemma lua_call_inv: "handles_inv P w \<Longrightarrow> handles_inv P (snd (lua_call P D name args w))"
  by (auto simp: lua_call_def file_map_def file_list_inv file_open_inv file_close_inv
        file_write_inv file_writeline_inv file_read_inv file_readline_inv file_format_inv
        file_remove_inv file_seek_inv file_flush_inv file_rename_inv file_fsinfo_inv
        file_fscfg_inv file_exists_inv split: option.splits if_splits)

lemma run_inv: "handles_inv P w \<Longrightarrow> handles_inv P (run P D script w)"
  by (induction script arbitrary: w) (simp_all add: lua_call_inv)

lemma init_inv: "handles_inv P (init_world P d)"
  by (simp add: handles_inv_def init_world_def is_closed_def open_handles_def)

lemma g_read_out_of_range:
  "e < 0 \<or> 255 < e \<Longrightarrow> file_g_read P D n0 e w = file_g_read P D n0 EOF w"
  by (auto simp: file_g_read_def EOF_def)

lemma file_read_delim:
  "\<not> char_signed P \<Longrightarrow>
   file_read P D [LString [d]] w = file_g_read P D (int (LUAL_BUFFERSIZE P)) (uint d) w"
  by (simp add: file_read_def lua_isnumber_type_def lua_isstring_def arg_def
        luaL_checklstring_def char_value_def)

lemma file_read_absent:
  "\<not> lua_isstring args 1 \<Longrightarrow>
   file_read P D args w = file_g_read P D (int (LUAL_BUFFERSIZE P)) EOF w"
  by (auto simp: file_read_def lua_isnumber_type_def lua_isstring_def
        split: option.splits lua_value.splits)

lemma file_read_count:
  "file_read P D (LNumber v # rest) w =
     file_g_read P D (if v mod 2 ^ 32 > int (LUAL_BUFFERSIZE P) then int (LUAL_BUFFERSIZE P)
                      else v mod 2 ^ 32) EOF w"
  by (simp add: file_read_def lua_isnumber_type_def arg_def luaL_checkinteger_def Let_def)

subsection \<open>Calls on a closed session, and calls that raise\<close>

lemma g_read_closed:
  "is_closed P w \<Longrightarrow> file_g_read P D n e w = (LuaError ''open a file first'', w)"
  by (simp add: file_g_read_def is_closed_def Let_def)

lemma file_read_closed:
  assumes cl: "is_closed P w"
  shows "file_read P D args w =
     (if bad_delimiter args then LuaError ''wrong arg range'' else LuaError ''open a file first'', w)"
proof (cases "arg args 1")
  case None
  then show ?thesis using cl
    by (simp add: file_read_def lua_isnumber_type_def lua_isstring_def bad_delimiter_def g_read_closed)
next
  case (Some v)
  then show ?thesis using cl
    by (cases v)
      (simp_all add: file_read_def lua_isnumber_type_def lua_isstring_def bad_delimiter_def
         g_read_closed luaL_checkinteger_def luaL_checklstring_def Let_def)
qed

lemma init_closed: "is_closed P (init_world P d)"
  by (simp add: is_closed_def init_world_def)

lemma file_open_raise:
  "fst (file_open P D args w) = ArgError k m \<Longrightarrow> snd (file_open P D args w) = close_if_open P D w"
  by (auto simp: file_open_def Let_def split: sum.splits prod.splits if_splits)

lemma file_rename_raise:
  "fst (file_rename P D args w) = ArgError k m \<Longrightarrow> snd (file_rename P D args w) = close_if_open P D w"
  by (auto simp: file_rename_def Let_def split: sum.splits prod.splits if_splits)

lemma takeWhile_length_all: "(length (takeWhile Q xs) = length xs) = (\<forall>x\<in>set xs. Q x)"
proof (induction xs)
  case Nil
  then show ?case by simp
next
  case (Cons x xs)
  have "length (takeWhile Q xs) \<le> length xs" by (rule length_takeWhile_le)
  then show ?case using Cons by auto
qed

lemma filename_ok_iff: "filename_ok P name = (length name < FS_NAME_MAX_LENGTH P \<and> 0 \<notin> set name)"
  by (auto simp: filename_ok_def c_strlen_def c_str_def takeWhile_length_all)

lemma checklstring_Inl:
  "luaL_checklstring P args k = Inl e \<Longrightarrow> e = ArgError k ''string expected''"
  by (auto simp: luaL_checklstring_def split: option.splits lua_value.splits)

lemma optstring_Inl:
  "luaL_optstring P args k def = Inl e \<Longrightarrow> e = ArgError k ''string expected''"
  by (auto simp: luaL_optstring_def dest: checklstring_Inl split: if_splits)

lemma file_open_success:
  assumes s: "fst (file_open P D args w) = Return [LBoolean True]"
  shows "\<not> is_closed P (snd (file_open P D args w)) \<and>
         (\<exists>name flags. calls (snd (file_open P D args w)) =
            calls w @ (if is_closed P w then [] else [FsClose (file_fd w)]) @
            [FsOpen name flags (file_fd (snd (file_open P D args w)))])"
  using s close_if_open_calls [of P D w]
  by (auto simp: file_open_def Let_def is_closed_def log_def
        dest: checklstring_Inl optstring_Inl split: sum.splits prod.splits if_splits)

lemma file_open_failure:
  assumes s: "fst (file_open P D args w) \<noteq> Return [LBoolean True]"
  shows "is_closed P (snd (file_open P D args w))"
  using s close_if_open_closed [of P D w]
  by (auto simp: file_open_def Let_def is_closed_def log_def
        split: sum.splits prod.splits if_splits)

lemma file_close_closed:
  "is_closed P (snd (file_close P D args w)) \<and>
   calls (snd (file_close P D args w)) =
     calls w @ (if is_closed P w then [] else [FsClose (file_fd w)])"
  by (simp add: file_close_def close_if_open_closed close_if_open_calls)

lemma file_format_closed:
  "is_closed P (snd (file_format P D args w)) \<and>
   calls (snd (file_format P D args w)) =
     calls w @ (if is_closed P w then [] else [FsClose (file_fd w)]) @ [FsFormat]"
  using close_if_open_closed [of P D w] close_if_open_calls [of P D w]
  by (auto simp: file_format_def file_close_def Let_def is_closed_def log_def split: prod.splits)

lemma file_rename_closed:
  "is_closed P (snd (file_rename P D args w)) \<and>
   (\<exists>cs. calls (snd (file_rename P D args w)) =
     calls w @ (if is_closed P w then [] else [FsClose (file_fd w)]) @ cs)"
  using close_if_open_closed [of P D w] close_if_open_calls [of P D w]
  by (auto simp: file_rename_def Let_def is_closed_def log_def split: prod.splits sum.splits)

lemma file_remove_returns:
  assumes s: "fst (file_remove P D args w) = Return []"
  shows "is_closed P (snd (file_remove P D args w)) \<and>
   (\<exists>name. calls (snd (file_remove P D args w)) =
     calls w @ (if is_closed P w then [] else [FsClose (file_fd w)]) @ [SpiffsRemove name])"
  using s close_if_open_closed [of P D w] close_if_open_calls [of P D w]
  by (auto simp: file_remove_def file_close_def Let_def is_closed_def log_def
        dest: checklstring_Inl split: prod.splits sum.splits if_splits)

lemma file_remove_raises:
  assumes s: "fst (file_remove P D args w) \<noteq> Return []"
  shows "snd (file_remove P D args w) = w"
  using s
  by (auto simp: file_remove_def file_close_def Let_def split: prod.splits sum.splits if_splits)

lemma inv_at_most_one: "handles_inv P w \<Longrightarrow> length (open_handles P (calls w)) \<le> 1"
  by (simp add: handles_inv_def)

lemma close_if_open_state:
  "close_if_open P D w =
     (if is_closed P w then w
      else w\<lparr>file_fd := FS_OPEN_OK P - 1, drv := fs_close D (file_fd w) (drv w),
             calls := calls w @ [FsClose (file_fd w)]\<rparr>)"
  by (simp add: close_if_open_def is_closed_def log_def)

lemma file_open_state:
  "(fst (file_open P D args w) = Return [LBoolean True] \<longrightarrow>
      (\<exists>name mode. luaL_checklstring P args 1 = Inr name \<and>
         luaL_optstring P args 2 [0x72] = Inr mode \<and>
         snd (file_open P D args w) =
           (close_if_open P D w)
             \<lparr>file_fd := fst (fs_open D name (fs_mode2flag D (c_str mode)) (drv (close_if_open P D w))),
              drv := snd (fs_open D name (fs_mode2flag D (c_str mode)) (drv (close_if_open P D w))),
              calls := calls (close_if_open P D w) @
                [FsOpen name (fs_mode2flag D (c_str mode))
                   (fst (fs_open D name (fs_mode2flag D (c_str mode)) (drv (close_if_open P D w))))]\<rparr>)) \<and>
   (fst (file_open P D args w) = Return [LNil] \<longrightarrow>
      (\<exists>name mode. luaL_checklstring P args 1 = Inr name \<and>
         luaL_optstring P args 2 [0x72] = Inr mode \<and>
         snd (file_open P D args w) =
           (close_if_open P D w)
             \<lparr>drv := snd (fs_open D name (fs_mode2flag D (c_str mode)) (drv (close_if_open P D w))),
              calls := calls (close_if_open P D w) @
                [FsOpen name (fs_mode2flag D (c_str mode))
                   (fst (fs_open D name (fs_mode2flag D (c_str mode)) (drv (close_if_open P D w))))]\<rparr>)) \<and>
   (fst (file_open P D args w) \<noteq> Return [LBoolean True] \<and>
    fst (file_open P D args w) \<noteq> Return [LNil] \<longrightarrow>
      snd (file_open P D args w) = close_if_open P D w)"
  using close_if_open_closed [of P D w]
  by (auto simp: file_open_def Let_def log_def is_closed_def
        dest: checklstring_Inl optstring_Inl split: sum.splits prod.splits if_splits)

lemma file_format_state:
  "snd (file_format P D args w) =
     (close_if_open P D w)
       \<lparr>drv := snd (fs_format D (drv (close_if_open P D w))),
        calls := calls (close_if_open P D w) @ [FsFormat]\<rparr>"
  by (auto simp: file_format_def file_close_def Let_def log_def split: prod.splits)

lemma file_rename_state:
  "(\<forall>b. fst (file_rename P D args w) = Return [LBoolean b] \<longrightarrow>
      (\<exists>old new. luaL_checklstring P args 1 = Inr old \<and> luaL_checklstring P args 2 = Inr new \<and>
         snd (file_rename P D args w) =
           (close_if_open P D w)
             \<lparr>drv := snd (myspiffs_rename D old new (drv (close_if_open P D w))),
              calls := calls (close_if_open P D w) @ [SpiffsRename old new]\<rparr>)) \<and>
   ((\<forall>b. fst (file_rename P D args w) \<noteq> Return [LBoolean b]) \<longrightarrow>
      snd (file_rename P D args w) = close_if_open P D w)"
  by (auto simp: file_rename_def Let_def log_def
        dest: checklstring_Inl split: sum.splits prod.splits if_splits)

lemma file_remove_state:
  "fst (file_remove P D args w) = Return [] \<longrightarrow>
      (\<exists>name. luaL_checklstring P args 1 = Inr name \<and>
         snd (file_remove P D args w) =
           (close_if_open P D w)
             \<lparr>drv := SPIFFS_remove D name (drv (close_if_open P D w)),
              calls := calls (close_if_open P D w) @ [SpiffsRemove name]\<rparr>)"
  by (auto simp: file_remove_def file_close_def Let_def log_def
        dest: checklstring_Inl split: sum.splits prod.splits if_splits)

subsection \<open>The driver in memory at work\<close>

lemma xny_read:
  "fs_read (ram_driver 1) (file_fd xny) 1024 (drv xny) =
     ((3, (\<lambda>i. if i < 3 then [0x78, 0x0A, 0x79] ! i else 0)), \<lparr>content = [0x78, 0x0A, 0x79], pos = 3\<rparr>)"
  by (simp add: ram_driver_def ram_read_def xny_def Let_def fun_eq_iff numeral_3_eq_3)

lemma xny_chunk:
  "luaL_pushresult (\<lambda>i. if i < 3 then [0x78, 0x0A, 0x79] ! i else (0::byte)) (nat 3) = [0x78, 0x0A, 0x79]"
  by (simp add: luaL_pushresult_def upt_rec nth_Cons')

lemma xny_open: "\<not> is_closed esp xny"
  by (simp add: is_closed_def esp_def xny_def)

lemma eof_read:
  "fs_read (ram_driver 1) (file_fd (xny\<lparr>drv := \<lparr>content = [0x78, 0x0A, 0x79], pos = 3\<rparr>\<rparr>))
     (if (1024::int) \<le> 0 \<or> 1024 > int (LUAL_BUFFERSIZE esp) then int (LUAL_BUFFERSIZE esp) else 1024)
     (drv (xny\<lparr>drv := \<lparr>content = [0x78, 0x0A, 0x79], pos = 3\<rparr>\<rparr>)) =
     ((0, (\<lambda>i. 0)), \<lparr>content = [0x78, 0x0A, 0x79], pos = 3\<rparr>)"
  by (simp add: ram_driver_def ram_read_def xny_def Let_def esp_def)

lemma g_read_state:
  assumes op: "\<not> is_closed P w"
    and rd: "fs_read D (file_fd w)
               (if n0 \<le> 0 \<or> n0 > int (LUAL_BUFFERSIZE P) then int (LUAL_BUFFERSIZE P) else n0)
               (drv w) = ((r, p), d')"
    and e: "e = (if e0 < 0 \<or> e0 > 255 then EOF else e0)"
    and n: "n = (if n0 \<le> 0 \<or> n0 > int (LUAL_BUFFERSIZE P) then int (LUAL_BUFFERSIZE P) else n0)"
    and i: "i = scan_delim P p r e 0"
  shows "file_g_read P D n0 e0 w =
           (if i = 0
            then (Return [], w\<lparr>drv := d', calls := calls w @ [FsRead (file_fd w) n]\<rparr>)
            else (Return [LString (luaL_pushresult p (nat i))],
                  w\<lparr>drv := snd (fs_seek D (file_fd w) (- (r - i)) SEEK_CUR d'),
                    calls := calls w @ [FsRead (file_fd w) n,
                                        FsSeek (file_fd w) (- (r - i)) SEEK_CUR]\<rparr>))"
  using op rd e n i
  by (simp add: file_g_read_def is_closed_def Let_def log_def luaL_pushresult_def
        split: prod.splits)

lemma g_read_until_state:
  assumes op: "\<not> is_closed P w"
    and us: "\<not> char_signed P"
    and n: "n = (if n0 \<le> 0 \<or> n0 > int (LUAL_BUFFERSIZE P) then int (LUAL_BUFFERSIZE P) else n0)"
    and rd: "fs_read D (file_fd w) n (drv w) = ((r, p), d')"
  shows "(\<forall>i. i < length (luaL_pushresult p (nat r)) \<and> luaL_pushresult p (nat r) ! i = d \<and>
              (\<forall>j<i. luaL_pushresult p (nat r) ! j \<noteq> d) \<longrightarrow>
            file_g_read P D n0 (uint d) w =
              (Return [LString (take (i + 1) (luaL_pushresult p (nat r)))],
               w\<lparr>drv := snd (fs_seek D (file_fd w) (- (r - int (i + 1))) SEEK_CUR d'),
                 calls := calls w @ [FsRead (file_fd w) n,
                                     FsSeek (file_fd w) (- (r - int (i + 1))) SEEK_CUR]\<rparr>)) \<and>
         (d \<notin> set (luaL_pushresult p (nat r)) \<and> 0 < r \<longrightarrow>
            file_g_read P D n0 (uint d) w =
              (Return [LString (luaL_pushresult p (nat r))],
               w\<lparr>drv := snd (fs_seek D (file_fd w) 0 SEEK_CUR d'),
                 calls := calls w @ [FsRead (file_fd w) n, FsSeek (file_fd w) 0 SEEK_CUR]\<rparr>)) \<and>
         (r \<le> 0 \<longrightarrow>
            file_g_read P D n0 (uint d) w =
              (Return [], w\<lparr>drv := d', calls := calls w @ [FsRead (file_fd w) n]\<rparr>))"
proof -
  let ?chunk = "luaL_pushresult p (nat r)"
  have ee: "uint d = (if uint d < 0 \<or> uint d > 255 then EOF else uint d)"
    using uint_lt2p [of d] by simp
  have rd': "fs_read D (file_fd w)
               (if n0 \<le> 0 \<or> n0 > int (LUAL_BUFFERSIZE P) then int (LUAL_BUFFERSIZE P) else n0)
               (drv w) = ((r, p), d')"
    using rd n by simp
  note g = g_read_state [OF op rd' ee n refl]
  have found: "file_g_read P D n0 (uint d) w =
              (Return [LString (take (i + 1) ?chunk)],
               w\<lparr>drv := snd (fs_seek D (file_fd w) (- (r - int (i + 1))) SEEK_CUR d'),
                 calls := calls w @ [FsRead (file_fd w) n,
                                     FsSeek (file_fd w) (- (r - int (i + 1))) SEEK_CUR]\<rparr>)"
    if h: "i < length ?chunk \<and> ?chunk ! i = d \<and> (\<forall>j<i. ?chunk ! j \<noteq> d)" for i
  proof -
    have i: "i < nat r" using h by (simp add: pushresult_length)
    have at: "p i = d" using h i by (simp add: pushresult_nth)
    have before: "\<forall>j<i. p j \<noteq> d" using h i by (simp add: pushresult_nth)
    have sc: "scan_delim P p r (uint d) 0 = int i + 1"
      using us i at before by (rule scan_first_nat)
    have tk: "take (i + 1) ?chunk = luaL_pushresult p (i + 1)"
      using i by (intro pushresult_take) simp
    have nat1: "nat (int i + 1) = i + 1" by simp
    show ?thesis using g sc tk nat1 by (simp add: ac_simps)
  qed
  have none: "file_g_read P D n0 (uint d) w =
              (Return [LString ?chunk],
               w\<lparr>drv := snd (fs_seek D (file_fd w) 0 SEEK_CUR d'),
                 calls := calls w @ [FsRead (file_fd w) n, FsSeek (file_fd w) 0 SEEK_CUR]\<rparr>)"
    if h: "d \<notin> set ?chunk \<and> 0 < r"
  proof -
    have "\<forall>j<nat r. p j \<noteq> d"
    proof (intro allI impI)
      fix j assume j: "j < nat r"
      then have "?chunk ! j \<in> set ?chunk" by (simp add: pushresult_length)
      then show "p j \<noteq> d" using h j by (auto simp: pushresult_nth)
    qed
    then have "scan_delim P p r (uint d) 0 = r" using us h scan_none_nat [of P r p d] by simp
    then show ?thesis using g h by simp
  qed
  have empty: "file_g_read P D n0 (uint d) w =
              (Return [], w\<lparr>drv := d', calls := calls w @ [FsRead (file_fd w) n]\<rparr>)"
    if h: "r \<le> 0"
    using g scan_delim_nonpos [OF h, of P p "uint d"] by simp
  show ?thesis using found none empty by blast
qed

lemma g_read_plain_state:
  assumes op: "\<not> is_closed P w"
    and us: "\<not> char_signed P"
    and n: "n = (if n0 \<le> 0 \<or> n0 > int (LUAL_BUFFERSIZE P) then int (LUAL_BUFFERSIZE P) else n0)"
    and rd: "fs_read D (file_fd w) n (drv w) = ((r, p), d')"
    and e: "e < 0 \<or> 255 < e"
  shows "file_g_read P D n0 e w =
           (if 0 < r
            then (Return [LString (luaL_pushresult p (nat r))],
                  w\<lparr>drv := snd (fs_seek D (file_fd w) 0 SEEK_CUR d'),
                    calls := calls w @ [FsRead (file_fd w) n, FsSeek (file_fd w) 0 SEEK_CUR]\<rparr>)
            else (Return [], w\<lparr>drv := d', calls := calls w @ [FsRead (file_fd w) n]\<rparr>))"
proof -
  have ee: "EOF = (if e < 0 \<or> e > 255 then EOF else e)" using e by auto
  have rd': "fs_read D (file_fd w)
               (if n0 \<le> 0 \<or> n0 > int (LUAL_BUFFERSIZE P) then int (LUAL_BUFFERSIZE P) else n0)
               (drv w) = ((r, p), d')"
    using rd n by simp
  note g = g_read_state [OF op rd' ee n refl]
  show ?thesis using g scan_eof_unsigned [OF us, of p r] by simp
qed

lemma xny_seek_back:
  "snd (fs_seek (ram_driver 1) (file_fd xny) (- (3 - int (1 + 1))) SEEK_CUR
          \<lparr>content = [0x78, 0x0A, 0x79], pos = 3\<rparr>) =
   \<lparr>content = [0x78, 0x0A, 0x79], pos = 2\<rparr>"
  by (simp add: ram_driver_def ram_seek_def Let_def)

lemma xny_seek_zero:
  "snd (fs_seek (ram_driver 1) (file_fd xny) 0 SEEK_CUR
          \<lparr>content = [0x78, 0x0A, 0x79], pos = 3\<rparr>) =
   \<lparr>content = [0x78, 0x0A, 0x79], pos = 3\<rparr>"
  by (simp add: ram_driver_def ram_seek_def Let_def)

text \<open>
  The example of the specification: \<open>readline\<close> on a file holding \<open>x\<close>, a newline and
  \<open>y\<close> returns the first line with its newline, then \<open>y\<close>, then nothing.
\<close>

lemma readline_xny:
  "fst (file_readline esp (ram_driver 1) [] xny) = Return [LString [0x78, 0x0A]]"
  "fst (file_readline esp (ram_driver 1) [] (snd (file_readline esp (ram_driver 1) [] xny))) =
     Return [LString [0x79]]"
  "fst (file_readline esp (ram_driver 1) []
     (snd (file_readline esp (ram_driver 1) []
        (snd (file_readline esp (ram_driver 1) [] xny))))) = Return []"
  by (simp_all add: file_readline_def file_g_read_def Let_def esp_def ram_driver_def ram_read_def
        ram_seek_def xny_def log_def scan_delim.simps char_value_def luaL_pushresult_def EOF_def
        upt_rec nth_Cons')

subsection \<open>The claims\<close>

text \<open>
  Claim C1. On an open session, a read with a count \<open>n\<close> between 1 and the buffer size
  and a delimiter byte \<open>d\<close> asks the driver once for \<open>n\<close> bytes. With \<open>r\<close> the driver's
  count and the chunk the first \<open>r\<close> bytes of the scratch buffer: if \<open>d\<close> first occurs at
  position \<open>i\<close> of the chunk, the data returned is its first \<open>i + 1\<close> bytes and one seek
  relative to the current position moves back by \<open>r - (i + 1)\<close>; if \<open>d\<close> does not occur,
  the whole chunk is returned (nothing at all when the driver read nothing). The state
  after the call is given in full: the driver is in the state that the seek leaves (that
  the read leaves when nothing was read), the log has the read and the seek, the descriptor
  is the same. The comparison \<open>p[i] == end_char\<close> is between a plain \<open>char\<close> and a value
  in 0..255, so this is for a target whose plain \<open>char\<close> is unsigned.
\<close>

theorem delimited_read:
  assumes op: "\<not> is_closed P w"
    and n: "1 \<le> n" "n \<le> int (LUAL_BUFFERSIZE P)"
    and us: "\<not> char_signed P"
    and rd: "fs_read D (file_fd w) n (drv w) = ((r, p), d')"
  shows "(\<forall>i. i < length (luaL_pushresult p (nat r)) \<and> luaL_pushresult p (nat r) ! i = d \<and>
              (\<forall>j<i. luaL_pushresult p (nat r) ! j \<noteq> d) \<longrightarrow>
            file_g_read P D n (uint d) w =
              (Return [LString (take (i + 1) (luaL_pushresult p (nat r)))],
               w\<lparr>drv := snd (fs_seek D (file_fd w) (- (r - int (i + 1))) SEEK_CUR d'),
                 calls := calls w @ [FsRead (file_fd w) n,
                                     FsSeek (file_fd w) (- (r - int (i + 1))) SEEK_CUR]\<rparr>) \<and>
            length (take (i + 1) (luaL_pushresult p (nat r))) = i + 1) \<and>
         (d \<notin> set (luaL_pushresult p (nat r)) \<and> 0 < r \<longrightarrow>
            file_g_read P D n (uint d) w =
              (Return [LString (luaL_pushresult p (nat r))],
               w\<lparr>drv := snd (fs_seek D (file_fd w) 0 SEEK_CUR d'),
                 calls := calls w @ [FsRead (file_fd w) n, FsSeek (file_fd w) 0 SEEK_CUR]\<rparr>)) \<and>
         (r \<le> 0 \<longrightarrow>
            file_g_read P D n (uint d) w =
              (Return [], w\<lparr>drv := d', calls := calls w @ [FsRead (file_fd w) n]\<rparr>))"
proof -
  have nn: "n = (if n \<le> 0 \<or> n > int (LUAL_BUFFERSIZE P) then int (LUAL_BUFFERSIZE P) else n)"
    using n by simp
  note u = g_read_until_state [OF op us nn rd, of d]
  have len: "length (take (i + 1) (luaL_pushresult p (nat r))) = i + 1"
    if "i < length (luaL_pushresult p (nat r))" for i
    using that by simp
  show ?thesis using u len by blast
qed

theorem delimited_read_witness:
  "\<not> is_closed esp xny \<and> (1::int) \<le> 1024 \<and> 1024 \<le> int (LUAL_BUFFERSIZE esp) \<and>
   \<not> char_signed esp \<and>
   file_g_read esp (ram_driver 1) 1024 (uint (10 :: byte)) xny =
     (Return [LString [0x78, 0x0A]],
      \<lparr>file_fd = 1, drv = \<lparr>content = [0x78, 0x0A, 0x79], pos = 2\<rparr>,
       calls = [FsRead 1 1024, FsSeek 1 (- 1) SEEK_CUR]\<rparr>)"
proof -
  have n1: "(1::int) \<le> 1024" by simp
  have n2: "1024 \<le> int (LUAL_BUFFERSIZE esp)" by (simp add: esp_def)
  have us: "\<not> char_signed esp" by (simp add: esp_def)
  have pos: "(1::nat) < length [0x78, 0x0A, 0x79 :: byte] \<and> [0x78, 0x0A, 0x79 :: byte] ! 1 = 10 \<and>
             (\<forall>j<1. [0x78, 0x0A, 0x79 :: byte] ! j \<noteq> 10)"
    by simp
  note found = delimited_read [OF xny_open n1 n2 us xny_read, of 10, THEN conjunct1, rule_format,
      where i = 1, unfolded xny_chunk, OF pos, THEN conjunct1, unfolded xny_seek_back]
  show ?thesis
    using xny_open n1 n2 us found by (simp add: xny_def)
qed

text \<open>
  Claim C2, amended. The session starts closed. After any sequence of calls the driver has
  at most one descriptor outstanding, and it is the one the module holds. An \<open>open\<close> that
  returns \<open>true\<close> leaves the session open, the descriptor held before closed first; any
  other outcome of \<open>open\<close> leaves it closed. \<open>close\<close>, \<open>format\<close> and \<open>rename\<close> leave it
  closed, and so does a \<open>remove\<close> that returns; \<open>rename\<close> and such a \<open>remove\<close> close
  the descriptor held, whatever names they are given. A \<open>remove\<close> that raises (its name
  argument is rejected) has not touched the session. The state after each of these
  operations is given in full, in terms of the driver's functions and of the close block.
\<close>

theorem session_state_machine:
  "is_closed P (init_world P d) \<and>
   (\<forall>script. handles_inv P (run P D script (init_world P d)) \<and>
             length (open_handles P (calls (run P D script (init_world P d)))) \<le> 1) \<and>
   (fst (file_open P D args w) = Return [LBoolean True] \<longrightarrow>
      \<not> is_closed P (snd (file_open P D args w)) \<and>
      (\<exists>name flags. calls (snd (file_open P D args w)) =
         calls w @ (if is_closed P w then [] else [FsClose (file_fd w)]) @
         [FsOpen name flags (file_fd (snd (file_open P D args w)))])) \<and>
   (fst (file_open P D args w) \<noteq> Return [LBoolean True] \<longrightarrow>
      is_closed P (snd (file_open P D args w))) \<and>
   is_closed P (snd (file_close P D args w)) \<and>
   is_closed P (snd (file_format P D args w)) \<and>
   is_closed P (snd (file_rename P D args w)) \<and>
   (\<exists>cs. calls (snd (file_rename P D args w)) =
      calls w @ (if is_closed P w then [] else [FsClose (file_fd w)]) @ cs) \<and>
   (fst (file_remove P D args w) = Return [] \<longrightarrow>
      is_closed P (snd (file_remove P D args w)) \<and>
      (\<exists>name. calls (snd (file_remove P D args w)) =
         calls w @ (if is_closed P w then [] else [FsClose (file_fd w)]) @ [SpiffsRemove name])) \<and>
   (fst (file_remove P D args w) \<noteq> Return [] \<longrightarrow> snd (file_remove P D args w) = w) \<and>
   close_if_open P D w =
     (if is_closed P w then w
      else w\<lparr>file_fd := FS_OPEN_OK P - 1, drv := fs_close D (file_fd w) (drv w),
             calls := calls w @ [FsClose (file_fd w)]\<rparr>) \<and>
   snd (file_close P D args w) = close_if_open P D w \<and>
   (fst (file_open P D args w) = Return [LBoolean True] \<longrightarrow>
      (\<exists>name mode. luaL_checklstring P args 1 = Inr name \<and>
         luaL_optstring P args 2 [0x72] = Inr mode \<and>
         snd (file_open P D args w) =
           (close_if_open P D w)
             \<lparr>file_fd := fst (fs_open D name (fs_mode2flag D (c_str mode)) (drv (close_if_open P D w))),
              drv := snd (fs_open D name (fs_mode2flag D (c_str mode)) (drv (close_if_open P D w))),
              calls := calls (close_if_open P D w) @
                [FsOpen name (fs_mode2flag D (c_str mode))
                   (fst (fs_open D name (fs_mode2flag D (c_str mode)) (drv (close_if_open P D w))))]\<rparr>)) \<and>
   (fst (file_open P D args w) = Return [LNil] \<longrightarrow>
      (\<exists>name mode. luaL_checklstring P args 1 = Inr name \<and>
         luaL_optstring P args 2 [0x72] = Inr mode \<and>
         snd (file_open P D args w) =
           (close_if_open P D w)
             \<lparr>drv := snd (fs_open D name (fs_mode2flag D (c_str mode)) (drv (close_if_open P D w))),
              calls := calls (close_if_open P D w) @
                [FsOpen name (fs_mode2flag D (c_str mode))
                   (fst (fs_open D name (fs_mode2flag D (c_str mode)) (drv (close_if_open P D w))))]\<rparr>)) \<and>
   (fst (file_open P D args w) \<noteq> Return [LBoolean True] \<and>
    fst (file_open P D args w) \<noteq> Return [LNil] \<longrightarrow>
      snd (file_open P D args w) = close_if_open P D w) \<and>
   snd (file_format P D args w) =
     (close_if_open P D w)
       \<lparr>drv := snd (fs_format D (drv (close_if_open P D w))),
        calls := calls (close_if_open P D w) @ [FsFormat]\<rparr> \<and>
   (\<forall>b. fst (file_rename P D args w) = Return [LBoolean b] \<longrightarrow>
      (\<exists>old new. luaL_checklstring P args 1 = Inr old \<and> luaL_checklstring P args 2 = Inr new \<and>
         snd (file_rename P D args w) =
           (close_if_open P D w)
             \<lparr>drv := snd (myspiffs_rename D old new (drv (close_if_open P D w))),
              calls := calls (close_if_open P D w) @ [SpiffsRename old new]\<rparr>)) \<and>
   ((\<forall>b. fst (file_rename P D args w) \<noteq> Return [LBoolean b]) \<longrightarrow>
      snd (file_rename P D args w) = close_if_open P D w) \<and>
   (fst (file_remove P D args w) = Return [] \<longrightarrow>
      (\<exists>name. luaL_checklstring P args 1 = Inr name \<and>
         snd (file_remove P D args w) =
           (close_if_open P D w)
             \<lparr>drv := SPIFFS_remove D name (drv (close_if_open P D w)),
              calls := calls (close_if_open P D w) @ [SpiffsRemove name]\<rparr>))"
proof -
  have reach: "handles_inv P (run P D script (init_world P d)) \<and>
             length (open_handles P (calls (run P D script (init_world P d)))) \<le> 1" for script
    using run_inv [OF init_inv, of P D script d] inv_at_most_one by blast
  have old: "is_closed P (init_world P d) \<and>
   (\<forall>script. handles_inv P (run P D script (init_world P d)) \<and>
             length (open_handles P (calls (run P D script (init_world P d)))) \<le> 1) \<and>
   (fst (file_open P D args w) = Return [LBoolean True] \<longrightarrow>
      \<not> is_closed P (snd (file_open P D args w)) \<and>
      (\<exists>name flags. calls (snd (file_open P D args w)) =
         calls w @ (if is_closed P w then [] else [FsClose (file_fd w)]) @
         [FsOpen name flags (file_fd (snd (file_open P D args w)))])) \<and>
   (fst (file_open P D args w) \<noteq> Return [LBoolean True] \<longrightarrow>
      is_closed P (snd (file_open P D args w))) \<and>
   is_closed P (snd (file_close P D args w)) \<and>
   is_closed P (snd (file_format P D args w)) \<and>
   is_closed P (snd (file_rename P D args w)) \<and>
   (\<exists>cs. calls (snd (file_rename P D args w)) =
      calls w @ (if is_closed P w then [] else [FsClose (file_fd w)]) @ cs) \<and>
   (fst (file_remove P D args w) = Return [] \<longrightarrow>
      is_closed P (snd (file_remove P D args w)) \<and>
      (\<exists>name. calls (snd (file_remove P D args w)) =
         calls w @ (if is_closed P w then [] else [FsClose (file_fd w)]) @ [SpiffsRemove name])) \<and>
   (fst (file_remove P D args w) \<noteq> Return [] \<longrightarrow> snd (file_remove P D args w) = w)"
    using init_closed [of P d] reach file_open_success [of P D args w]
      file_open_failure [of P D args w] file_close_closed [of P D args w]
      file_format_closed [of P D args w] file_rename_closed [of P D args w]
      file_remove_returns [of P D args w] file_remove_raises [of P D args w]
    by blast
  have cl: "snd (file_close P D args w) = close_if_open P D w" by (simp add: file_close_def)
  show ?thesis
    using old close_if_open_state [of P D w] cl file_open_state [of P D args w]
      file_format_state [of P D args w] file_rename_state [of P D args w]
      file_remove_state [of P D args w]
    by (intro conjI) (erule conjE | assumption)+
qed

theorem session_state_machine_witness:
  "fst (file_open esp (ram_driver 1) [LString [0x61]] xny) = Return [LBoolean True] \<and>
   \<not> is_closed esp (snd (file_open esp (ram_driver 1) [LString [0x61]] xny)) \<and>
   fst (file_remove esp (ram_driver 1) [LString [0x61]] xny) = Return [] \<and>
   is_closed esp (snd (file_remove esp (ram_driver 1) [LString [0x61]] xny)) \<and>
   fst (file_open esp (ram_driver 1) [LNil] xny) \<noteq> Return [LBoolean True] \<and>
   is_closed esp (snd (file_open esp (ram_driver 1) [LNil] xny)) \<and>
   fst (file_remove esp (ram_driver 1) [LNil] xny) \<noteq> Return [] \<and>
   snd (file_remove esp (ram_driver 1) [LNil] xny) = xny"
proof -
  have o: "fst (file_open esp (ram_driver 1) [LString [0x61]] xny) = Return [LBoolean True]"
    by (simp add: file_open_def Let_def luaL_checklstring_def luaL_optstring_def
          lua_isnoneornil_def arg_def filename_ok_def c_strlen_def c_str_def close_if_open_def
          xny_def esp_def ram_driver_def log_def)
  have r: "fst (file_remove esp (ram_driver 1) [LString [0x61]] xny) = Return []"
    by (simp add: file_remove_def Let_def luaL_checklstring_def arg_def filename_ok_def
          c_strlen_def c_str_def esp_def)
  have o': "fst (file_open esp (ram_driver 1) [LNil] xny) \<noteq> Return [LBoolean True]"
    by (simp add: file_open_def Let_def luaL_checklstring_def arg_def)
  have r': "fst (file_remove esp (ram_driver 1) [LNil] xny) \<noteq> Return []"
    by (simp add: file_remove_def Let_def luaL_checklstring_def arg_def)
  note t = session_state_machine [of esp "drv xny" "ram_driver 1" "[LString [0x61]]" xny]
  note t' = session_state_machine [of esp "drv xny" "ram_driver 1" "[LNil]" xny]
  show ?thesis using o r o' r' t t' by blast
qed

theorem remove_invalid_name_counterexample:
  "\<not> is_closed esp xny \<and>
   fst (file_remove esp (ram_driver 1) [LString (replicate 32 0x61)] xny) =
     ArgError 1 ''filename invalid'' \<and>
   \<not> is_closed esp (snd (file_remove esp (ram_driver 1) [LString (replicate 32 0x61)] xny))"
  by (simp add: xny_open file_remove_def luaL_checklstring_def arg_def filename_ok_def esp_def
        is_closed_def xny_def)

text \<open>
  Claim C3. On an open session a read returns no value exactly when the driver's count is
  not positive (nothing was read); when the count is positive it returns a string of at
  least one byte, a prefix of what was read.
\<close>

theorem read_absent_iff:
  assumes op: "\<not> is_closed P w"
    and rd: "fs_read D (file_fd w)
               (if n0 \<le> 0 \<or> n0 > int (LUAL_BUFFERSIZE P) then int (LUAL_BUFFERSIZE P) else n0)
               (drv w) = ((r, p), d')"
  shows "((fst (file_g_read P D n0 e0 w) = Return []) = (r \<le> 0)) \<and>
         (0 < r \<longrightarrow> (\<exists>k. 0 < k \<and> k \<le> nat r \<and>
                  fst (file_g_read P D n0 e0 w) = Return [LString (luaL_pushresult p k)] \<and>
                  length (luaL_pushresult p k) = k))"
proof -
  let ?e = "if e0 < 0 \<or> e0 > 255 then EOF else e0"
  let ?i = "scan_delim P p r ?e 0"
  note g = g_read_open [OF op rd refl refl refl, of e0]
  have z: "(?i = 0) = (r \<le> 0)" by (rule scan_delim_zero_iff)
  have pos: "0 < r \<Longrightarrow> 0 < ?i \<and> ?i \<le> r" using scan_delim_pos [of 0 r P p ?e] by simp
  have first: "(fst (file_g_read P D n0 e0 w) = Return []) = (r \<le> 0)"
    using g(1) z by auto
  have second: "\<exists>k. 0 < k \<and> k \<le> nat r \<and>
                  fst (file_g_read P D n0 e0 w) = Return [LString (luaL_pushresult p k)] \<and>
                  length (luaL_pushresult p k) = k" if h: "0 < r"
  proof -
    have "0 < nat ?i \<and> nat ?i \<le> nat r" using pos [OF h] by linarith
    moreover have "fst (file_g_read P D n0 e0 w) = Return [LString (luaL_pushresult p (nat ?i))]"
      using g(1) pos [OF h] by simp
    ultimately show ?thesis using pushresult_length by blast
  qed
  show ?thesis using first second by blast
qed

theorem read_absent_iff_witness:
  "\<not> is_closed esp (xny\<lparr>drv := \<lparr>content = [0x78, 0x0A, 0x79], pos = 3\<rparr>\<rparr>) \<and>
   fst (file_g_read esp (ram_driver 1) 1024 10
          (xny\<lparr>drv := \<lparr>content = [0x78, 0x0A, 0x79], pos = 3\<rparr>\<rparr>)) = Return []"
proof -
  have op: "\<not> is_closed esp (xny\<lparr>drv := \<lparr>content = [0x78, 0x0A, 0x79], pos = 3\<rparr>\<rparr>)"
    by (simp add: is_closed_def esp_def xny_def)
  show ?thesis
    using op read_absent_iff [OF op eof_read, of 10] by simp
qed

text \<open>
  Claim C4. \<open>fsinfo\<close> raises when the driver's info query fails (a return code other than
  0), and raises when \<open>total\<close> or \<open>used\<close> is above \<open>2^31 - 1\<close> or \<open>used > total\<close>. In
  every other case it returns the three numbers \<open>total - used\<close>, \<open>used\<close>, \<open>total\<close>. So
  whenever it returns, it returns three numbers \<open>free\<close>, \<open>used\<close>, \<open>total\<close> with
  \<open>free + used = total\<close> and \<open>used \<le> total\<close>.
\<close>

theorem fsinfo_result:
  assumes "SPIFFS_info D (drv w) = (rc, tot, usd)"
  shows "(rc \<noteq> 0 \<longrightarrow> fst (file_fsinfo P D args w) = LuaError ''file system failed'') \<and>
         (rc = 0 \<and> (2 ^ 31 - 1 < uint tot \<or> 2 ^ 31 - 1 < uint usd \<or> uint tot < uint usd)
            \<longrightarrow> fst (file_fsinfo P D args w) = LuaError ''file system error'') \<and>
         (rc = 0 \<and> uint tot \<le> 2 ^ 31 - 1 \<and> uint usd \<le> 2 ^ 31 - 1 \<and> uint usd \<le> uint tot
            \<longrightarrow> fst (file_fsinfo P D args w) =
                  Return [LNumber (uint tot - uint usd), LNumber (uint usd), LNumber (uint tot)]) \<and>
         (\<forall>vs. fst (file_fsinfo P D args w) = Return vs
            \<longrightarrow> (\<exists>free u t. vs = [LNumber free, LNumber u, LNumber t] \<and>
                   free + u = t \<and> u \<le> t \<and> 0 \<le> free \<and> 0 \<le> u \<and> t \<le> 2 ^ 31 - 1))"
  using fsinfo_cases [OF assms, of P args]
  by (auto split: if_splits)

theorem fsinfo_result_witness:
  "SPIFFS_info (ram_driver 1) (drv xny) = (0, 1000, 3) \<and>
   fst (file_fsinfo esp (ram_driver 1) [] xny) = Return [LNumber 997, LNumber 3, LNumber 1000]"
proof -
  have h: "SPIFFS_info (ram_driver 1) (drv xny) = (0, 1000, 3)"
    by (simp add: ram_driver_def xny_def)
  show ?thesis using h fsinfo_result [OF h, of esp "[]"] by simp
qed

text \<open>
  Claim C5, amended. \<open>open(name, mode)\<close> raises the argument error \<open>filename invalid\<close>
  exactly when the length of the name is not below the maximum name length or the name
  contains a NUL byte. The empty name is not rejected. A rejected name never reaches the
  driver's open; the only driver call made before the rejection is the close of a handle
  that was open.
\<close>

theorem open_rejects_invalid_name:
  assumes a: "luaL_checklstring P args 1 = Inr name"
  shows "((fst (file_open P D args w) = ArgError 1 ''filename invalid'') =
            (\<not> length name < FS_NAME_MAX_LENGTH P \<or> 0 \<in> set name)) \<and>
         (\<not> length name < FS_NAME_MAX_LENGTH P \<or> 0 \<in> set name \<longrightarrow>
            calls (snd (file_open P D args w)) =
              calls w @ (if is_closed P w then [] else [FsClose (file_fd w)]) \<and>
            drv (snd (file_open P D args w)) =
              (if is_closed P w then drv w else fs_close D (file_fd w) (drv w)))"
proof -
  have inv: "(\<not> filename_ok P name) = (\<not> length name < FS_NAME_MAX_LENGTH P \<or> 0 \<in> set name)"
    by (auto simp: filename_ok_iff)
  have d: "drv (close_if_open P D w) = (if is_closed P w then drv w else fs_close D (file_fd w) (drv w))"
    by (simp add: close_if_open_def is_closed_def log_def)
  have iff: "(fst (file_open P D args w) = ArgError 1 ''filename invalid'') = (\<not> filename_ok P name)"
    using a
    by (auto simp: file_open_def Let_def dest: optstring_Inl split: sum.splits prod.splits if_splits)
  have st: "\<not> filename_ok P name \<Longrightarrow> snd (file_open P D args w) = close_if_open P D w"
    using a by (simp add: file_open_def Let_def)
  show ?thesis
    using iff st d inv close_if_open_calls [of P D w] by auto
qed

theorem open_rejects_invalid_name_witness:
  "luaL_checklstring esp [LString [0x61, 0, 0x62]] 1 = Inr [0x61, 0, 0x62] \<and>
   fst (file_open esp (ram_driver 1) [LString [0x61, 0, 0x62]] (init_world esp (drv xny))) =
     ArgError 1 ''filename invalid'' \<and>
   calls (snd (file_open esp (ram_driver 1) [LString [0x61, 0, 0x62]] (init_world esp (drv xny)))) = []"
proof -
  have a: "luaL_checklstring esp [LString [0x61, 0, 0x62]] 1 = Inr [0x61, 0, 0x62]"
    by (simp add: luaL_checklstring_def arg_def)
  show ?thesis
    using a init_closed [of esp "drv xny"]
      open_rejects_invalid_name [OF a, of "ram_driver 1" "init_world esp (drv xny)"]
    by (simp add: init_world_def)
qed

theorem open_empty_name_counterexample:
  "fst (file_open esp (ram_driver 1) [LString []] (init_world esp (drv xny))) = Return [LBoolean True] \<and>
   calls (snd (file_open esp (ram_driver 1) [LString []] (init_world esp (drv xny)))) =
     [FsOpen [] 0 1]"
  by (simp add: file_open_def Let_def luaL_checklstring_def luaL_optstring_def lua_isnoneornil_def
        arg_def filename_ok_def c_strlen_def c_str_def close_if_open_def init_world_def esp_def
        ram_driver_def log_def)

text \<open>
  Claim C6. A delimiter given to \<open>read\<close> as a string of one byte \<open>d\<close>, whatever its value
  in 0..255, makes the read stop just after the first \<open>d\<close> in the chunk, and return the
  whole chunk when \<open>d\<close> is not in it. The end-of-file sentinel takes the place of the
  delimiter only when the argument is not a string (absent, or a count) or when the value
  handed to \<open>file_g_read\<close> is outside 0..255, and with the sentinel the read returns the
  whole chunk. In each case the state after the call is given in full: one read of the
  buffer size, then one seek relative to the current position that moves back over what
  follows the delimiter (by 0 when the whole chunk is returned), the driver left in the
  state of that seek. As the byte is read through a plain \<open>char\<close>, this is for a target
  whose plain \<open>char\<close> is unsigned.
\<close>

theorem read_delimiter_argument:
  assumes us: "\<not> char_signed P"
    and op: "\<not> is_closed P w"
    and rd: "fs_read D (file_fd w) (int (LUAL_BUFFERSIZE P)) (drv w) = ((r, p), d')"
  shows "(\<forall>i. i < length (luaL_pushresult p (nat r)) \<and> luaL_pushresult p (nat r) ! i = d \<and>
              (\<forall>j<i. luaL_pushresult p (nat r) ! j \<noteq> d) \<longrightarrow>
            file_read P D [LString [d]] w =
              (Return [LString (take (i + 1) (luaL_pushresult p (nat r)))],
               w\<lparr>drv := snd (fs_seek D (file_fd w) (- (r - int (i + 1))) SEEK_CUR d'),
                 calls := calls w @ [FsRead (file_fd w) (int (LUAL_BUFFERSIZE P)),
                                     FsSeek (file_fd w) (- (r - int (i + 1))) SEEK_CUR]\<rparr>)) \<and>
         (d \<notin> set (luaL_pushresult p (nat r)) \<and> 0 < r \<longrightarrow>
            file_read P D [LString [d]] w =
              (Return [LString (luaL_pushresult p (nat r))],
               w\<lparr>drv := snd (fs_seek D (file_fd w) 0 SEEK_CUR d'),
                 calls := calls w @ [FsRead (file_fd w) (int (LUAL_BUFFERSIZE P)),
                                     FsSeek (file_fd w) 0 SEEK_CUR]\<rparr>)) \<and>
         (r \<le> 0 \<longrightarrow>
            file_read P D [LString [d]] w =
              (Return [], w\<lparr>drv := d',
                 calls := calls w @ [FsRead (file_fd w) (int (LUAL_BUFFERSIZE P))]\<rparr>)) \<and>
         file_read P D [LString [d]] w = file_g_read P D (int (LUAL_BUFFERSIZE P)) (uint d) w \<and>
         (\<not> lua_isstring args 1 \<longrightarrow>
            file_read P D args w = file_g_read P D (int (LUAL_BUFFERSIZE P)) EOF w) \<and>
         file_read P D (LNumber v # rest) w =
            file_g_read P D (if v mod 2 ^ 32 > int (LUAL_BUFFERSIZE P)
                             then int (LUAL_BUFFERSIZE P) else v mod 2 ^ 32) EOF w \<and>
         (e < 0 \<or> 255 < e \<longrightarrow> file_g_read P D n0 e w = file_g_read P D n0 EOF w) \<and>
         (0 < r \<longrightarrow> file_g_read P D (int (LUAL_BUFFERSIZE P)) EOF w =
              (Return [LString (luaL_pushresult p (nat r))],
               w\<lparr>drv := snd (fs_seek D (file_fd w) 0 SEEK_CUR d'),
                 calls := calls w @ [FsRead (file_fd w) (int (LUAL_BUFFERSIZE P)),
                                     FsSeek (file_fd w) 0 SEEK_CUR]\<rparr>)) \<and>
         (r \<le> 0 \<longrightarrow> file_g_read P D (int (LUAL_BUFFERSIZE P)) EOF w =
              (Return [], w\<lparr>drv := d',
                 calls := calls w @ [FsRead (file_fd w) (int (LUAL_BUFFERSIZE P))]\<rparr>))"
proof -
  have nn: "int (LUAL_BUFFERSIZE P) =
      (if int (LUAL_BUFFERSIZE P) \<le> 0 \<or> int (LUAL_BUFFERSIZE P) > int (LUAL_BUFFERSIZE P)
       then int (LUAL_BUFFERSIZE P) else int (LUAL_BUFFERSIZE P))"
    by simp
  note u = g_read_until_state [OF op us nn rd, of d]
  have eo: "EOF < 0 \<or> 255 < EOF" by (simp add: EOF_def)
  note pl = g_read_plain_state [OF op us nn rd eo]
  have pl1: "0 < r \<longrightarrow> file_g_read P D (int (LUAL_BUFFERSIZE P)) EOF w =
              (Return [LString (luaL_pushresult p (nat r))],
               w\<lparr>drv := snd (fs_seek D (file_fd w) 0 SEEK_CUR d'),
                 calls := calls w @ [FsRead (file_fd w) (int (LUAL_BUFFERSIZE P)),
                                     FsSeek (file_fd w) 0 SEEK_CUR]\<rparr>)"
    using pl by simp
  have pl2: "r \<le> 0 \<longrightarrow> file_g_read P D (int (LUAL_BUFFERSIZE P)) EOF w =
              (Return [], w\<lparr>drv := d',
                 calls := calls w @ [FsRead (file_fd w) (int (LUAL_BUFFERSIZE P))]\<rparr>)"
    using pl by simp
  have dl: "file_read P D [LString [d]] w = file_g_read P D (int (LUAL_BUFFERSIZE P)) (uint d) w"
    using us by (rule file_read_delim)
  show ?thesis
    unfolding dl
    using u pl1 pl2 file_read_absent [of args P D w]
      file_read_count [of P D v rest w] g_read_out_of_range [of e P D n0 w]
    by blast
qed

theorem read_delimiter_argument_witness:
  "\<not> char_signed esp \<and> \<not> is_closed esp xny \<and>
   file_read esp (ram_driver 1) [LString [0x0A]] xny =
     (Return [LString [0x78, 0x0A]],
      \<lparr>file_fd = 1, drv = \<lparr>content = [0x78, 0x0A, 0x79], pos = 2\<rparr>,
       calls = [FsRead 1 1024, FsSeek 1 (- 1) SEEK_CUR]\<rparr>) \<and>
   file_read esp (ram_driver 1) [] xny =
     (Return [LString [0x78, 0x0A, 0x79]],
      \<lparr>file_fd = 1, drv = \<lparr>content = [0x78, 0x0A, 0x79], pos = 3\<rparr>,
       calls = [FsRead 1 1024, FsSeek 1 0 SEEK_CUR]\<rparr>)"
proof -
  have us: "\<not> char_signed esp" by (simp add: esp_def)
  have rd: "fs_read (ram_driver 1) (file_fd xny) (int (LUAL_BUFFERSIZE esp)) (drv xny) =
     ((3, (\<lambda>i. if i < 3 then [0x78, 0x0A, 0x79] ! i else 0)), \<lparr>content = [0x78, 0x0A, 0x79], pos = 3\<rparr>)"
    using xny_read by (simp add: esp_def)
  have pos: "(1::nat) < length [0x78, 0x0A, 0x79 :: byte] \<and> [0x78, 0x0A, 0x79 :: byte] ! 1 = 10 \<and>
             (\<forall>j<1. [0x78, 0x0A, 0x79 :: byte] ! j \<noteq> 10)"
    by simp
  have ns: "\<not> lua_isstring [] 1" by (simp add: lua_isstring_def arg_def)
  have r3: "(0::int) < 3" by simp
  note t = read_delimiter_argument [OF us xny_open rd, of 10 "[]", unfolded xny_chunk]
  note found = t [THEN conjunct1, rule_format, where i = 1, OF pos, unfolded xny_seek_back]
  note absent = t [THEN conjunct2, THEN conjunct2, THEN conjunct2, THEN conjunct2, THEN conjunct1,
      rule_format, OF ns]
  note plain = t [THEN conjunct2, THEN conjunct2, THEN conjunct2, THEN conjunct2, THEN conjunct2,
      THEN conjunct2, THEN conjunct2, THEN conjunct1, rule_format, OF r3, unfolded xny_seek_zero]
  show ?thesis using us xny_open found absent plain by (simp add: xny_def esp_def)
qed

text \<open>
  Claim C7. On an open session, \<open>write(S)\<close> returns \<open>true\<close> exactly when the length the
  driver reports as written equals the length of \<open>S\<close>; with any other length it returns
  \<open>nil\<close>. The driver is asked to write once, whatever it reports, and is left in the state
  of that write.
\<close>

theorem write_result:
  assumes op: "\<not> is_closed P w"
    and wr: "fs_write D (file_fd w) S (drv w) = (rl, d')"
  shows "((fst (file_write P D [LString S] w) = Return [LBoolean True]) = (rl = length S)) \<and>
         (rl \<noteq> length S \<longrightarrow> fst (file_write P D [LString S] w) = Return [LNil]) \<and>
         calls (snd (file_write P D [LString S] w)) = calls w @ [FsWrite (file_fd w) S] \<and>
         snd (file_write P D [LString S] w) =
           w\<lparr>drv := d', calls := calls w @ [FsWrite (file_fd w) S]\<rparr>"
  using op wr
  by (simp add: file_write_def is_closed_def luaL_checklstring_def arg_def Let_def log_def)

theorem write_result_witness:
  "\<not> is_closed esp xny \<and>
   fs_write (ram_driver 1) (file_fd xny) [0x61, 0x62] (drv xny) =
     (1, \<lparr>content = [0x61, 0x0A, 0x79], pos = 1\<rparr>) \<and>
   fst (file_write esp (ram_driver 1) [LString [0x61, 0x62]] xny) = Return [LNil] \<and>
   calls (snd (file_write esp (ram_driver 1) [LString [0x61, 0x62]] xny)) = [FsWrite 1 [0x61, 0x62]] \<and>
   drv (snd (file_write esp (ram_driver 1) [LString [0x61, 0x62]] xny)) =
     \<lparr>content = [0x61, 0x0A, 0x79], pos = 1\<rparr>"
proof -
  have wr: "fs_write (ram_driver 1) (file_fd xny) [0x61, 0x62] (drv xny) =
     (1, \<lparr>content = [0x61, 0x0A, 0x79], pos = 1\<rparr>)"
    by (simp add: ram_driver_def ram_write_def xny_def Let_def)
  show ?thesis
    using xny_open wr write_result [OF xny_open wr] by (simp add: xny_def)
qed

text \<open>
  Claim C8. On an open session, \<open>writeline(S)\<close> first writes \<open>S\<close>. It writes the newline
  byte after that exactly when the driver reported the full length of \<open>S\<close>, and it returns
  \<open>true\<close> exactly when both writes were reported in full, \<open>nil\<close> otherwise. The driver
  is left in the state of the last write made: that of the newline when \<open>S\<close> was written
  in full, that of \<open>S\<close> otherwise.
\<close>

theorem writeline_result:
  assumes op: "\<not> is_closed P w"
    and wr: "fs_write D (file_fd w) S (drv w) = (rl, d1)"
    and nl: "fs_write D (file_fd w) [10] d1 = (rl', d2)"
  shows "file_writeline P D [LString S] w =
           (if rl = length S
            then (if rl' = 1 then Return [LBoolean True] else Return [LNil],
                  w\<lparr>drv := d2,
                    calls := calls w @ [FsWrite (file_fd w) S, FsWrite (file_fd w) [10]]\<rparr>)
            else (Return [LNil], w\<lparr>drv := d1, calls := calls w @ [FsWrite (file_fd w) S]\<rparr>)) \<and>
         calls (snd (file_writeline P D [LString S] w)) =
           calls w @ (if rl = length S then [FsWrite (file_fd w) S, FsWrite (file_fd w) [10]]
                      else [FsWrite (file_fd w) S]) \<and>
         ((fst (file_writeline P D [LString S] w) = Return [LBoolean True]) =
            (rl = length S \<and> rl' = 1)) \<and>
         (\<not> (rl = length S \<and> rl' = 1) \<longrightarrow> fst (file_writeline P D [LString S] w) = Return [LNil])"
  using op wr nl
  by (simp add: file_writeline_def is_closed_def luaL_checklstring_def arg_def Let_def log_def)

theorem writeline_result_witness:
  "\<not> is_closed esp xny \<and>
   fs_write (ram_driver 1) (file_fd xny) [0x61] (drv xny) =
     (1, \<lparr>content = [0x61, 0x0A, 0x79], pos = 1\<rparr>) \<and>
   fs_write (ram_driver 1) (file_fd xny) [10] \<lparr>content = [0x61, 0x0A, 0x79], pos = 1\<rparr> =
     (1, \<lparr>content = [0x61, 0x0A, 0x79], pos = 2\<rparr>) \<and>
   file_writeline esp (ram_driver 1) [LString [0x61]] xny =
     (Return [LBoolean True],
      \<lparr>file_fd = 1, drv = \<lparr>content = [0x61, 0x0A, 0x79], pos = 2\<rparr>,
       calls = [FsWrite 1 [0x61], FsWrite 1 [10]]\<rparr>)"
proof -
  have wr: "fs_write (ram_driver 1) (file_fd xny) [0x61] (drv xny) =
     (1, \<lparr>content = [0x61, 0x0A, 0x79], pos = 1\<rparr>)"
    by (simp add: ram_driver_def ram_write_def xny_def Let_def)
  have nl: "fs_write (ram_driver 1) (file_fd xny) [10] \<lparr>content = [0x61, 0x0A, 0x79], pos = 1\<rparr> =
     (1, \<lparr>content = [0x61, 0x0A, 0x79], pos = 2\<rparr>)"
    by (simp add: ram_driver_def ram_write_def xny_def Let_def)
  show ?thesis
    using xny_open wr nl writeline_result [OF xny_open wr nl] by (simp add: xny_def)
qed

text \<open>
  Claim C9, amended. On a closed session each of \<open>read\<close>, \<open>readline\<close>, \<open>write\<close>,
  \<open>writeline\<close>, \<open>seek\<close> and \<open>flush\<close> raises an error and leaves the state as it was, the
  log of driver calls included. The message is \<open>open a file first\<close>, except that \<open>read\<close>
  with a string argument that is not one byte long raises \<open>wrong arg range\<close>: it checks
  its argument before it looks at the descriptor.
\<close>

theorem closed_session_errors:
  assumes cl: "is_closed P w"
  shows "file_readline P D args w = (LuaError ''open a file first'', w) \<and>
         file_write P D args w = (LuaError ''open a file first'', w) \<and>
         file_writeline P D args w = (LuaError ''open a file first'', w) \<and>
         file_seek P D args w = (LuaError ''open a file first'', w) \<and>
         file_flush P D args w = (LuaError ''open a file first'', w) \<and>
         file_read P D args w =
           (if bad_delimiter args then LuaError ''wrong arg range''
            else LuaError ''open a file first'', w)"
  using cl file_read_closed [OF cl, of D args] g_read_closed [OF cl]
  by (simp add: file_readline_def file_write_def file_writeline_def file_seek_def file_flush_def
        is_closed_def)

theorem closed_session_errors_witness:
  "is_closed esp (init_world esp (drv xny)) \<and>
   file_write esp (ram_driver 1) [LString [0x61]] (init_world esp (drv xny)) =
     (LuaError ''open a file first'', init_world esp (drv xny)) \<and>
   file_read esp (ram_driver 1) [LString [0x0A]] (init_world esp (drv xny)) =
     (LuaError ''open a file first'', init_world esp (drv xny))"
proof -
  have nb: "\<not> bad_delimiter [LString [0x0A]]" by (simp add: bad_delimiter_def arg_def)
  show ?thesis
    using init_closed [of esp "drv xny"] nb
      closed_session_errors [OF init_closed, of esp "ram_driver 1" "[LString [0x61]]" "drv xny"]
      closed_session_errors [OF init_closed, of esp "ram_driver 1" "[LString [0x0A]]" "drv xny"]
    by simp
qed

theorem closed_read_counterexample:
  "is_closed esp (init_world esp (drv xny)) \<and>
   fst (file_read esp (ram_driver 1) [LString [0x61, 0x62]] (init_world esp (drv xny))) =
     LuaError ''wrong arg range'' \<and>
   fst (file_read esp (ram_driver 1) [LString [0x61, 0x62]] (init_world esp (drv xny))) \<noteq>
     LuaError ''open a file first''"
  by (simp add: init_closed file_read_def lua_isnumber_type_def lua_isstring_def arg_def
        luaL_checklstring_def)

text \<open>
  Claim C10. When \<open>open\<close> or \<open>rename\<close> is called on an open session and raises an
  argument error, the descriptor has been closed at the driver before, and the session is
  left closed: the state is the one before the call with the driver's close applied, the
  close logged and the descriptor reset.
\<close>

theorem failed_validation_closes:
  assumes op: "\<not> is_closed P w"
  shows "(\<forall>k m. fst (file_open P D args w) = ArgError k m \<longrightarrow>
            is_closed P (snd (file_open P D args w)) \<and>
            calls (snd (file_open P D args w)) = calls w @ [FsClose (file_fd w)] \<and>
            snd (file_open P D args w) =
              w\<lparr>file_fd := FS_OPEN_OK P - 1, drv := fs_close D (file_fd w) (drv w),
                calls := calls w @ [FsClose (file_fd w)]\<rparr>) \<and>
         (\<forall>k m. fst (file_rename P D args w) = ArgError k m \<longrightarrow>
            is_closed P (snd (file_rename P D args w)) \<and>
            calls (snd (file_rename P D args w)) = calls w @ [FsClose (file_fd w)] \<and>
            snd (file_rename P D args w) =
              w\<lparr>file_fd := FS_OPEN_OK P - 1, drv := fs_close D (file_fd w) (drv w),
                calls := calls w @ [FsClose (file_fd w)]\<rparr>)"
  using op file_open_raise [of P D args w] file_rename_raise [of P D args w]
    close_if_open_closed [of P D w] close_if_open_calls [of P D w]
    close_if_open_state [of P D w]
  by auto

theorem failed_validation_closes_witness:
  "\<not> is_closed esp xny \<and>
   fst (file_open esp (ram_driver 1) [LString [0x61, 0, 0x62]] xny) = ArgError 1 ''filename invalid'' \<and>
   is_closed esp (snd (file_open esp (ram_driver 1) [LString [0x61, 0, 0x62]] xny)) \<and>
   calls (snd (file_open esp (ram_driver 1) [LString [0x61, 0, 0x62]] xny)) = [FsClose 1] \<and>
   drv (snd (file_open esp (ram_driver 1) [LString [0x61, 0, 0x62]] xny)) =
     \<lparr>content = [0x78, 0x0A, 0x79], pos = 0\<rparr> \<and>
   fst (file_rename esp (ram_driver 1) [LString [0x61, 0, 0x62]] xny) = ArgError 1 ''filename invalid'' \<and>
   is_closed esp (snd (file_rename esp (ram_driver 1) [LString [0x61, 0, 0x62]] xny))"
proof -
  have o: "fst (file_open esp (ram_driver 1) [LString [0x61, 0, 0x62]] xny) = ArgError 1 ''filename invalid''"
    by (simp add: file_open_def Let_def luaL_checklstring_def arg_def filename_ok_def c_strlen_def
          c_str_def)
  have r: "fst (file_rename esp (ram_driver 1) [LString [0x61, 0, 0x62]] xny) = ArgError 1 ''filename invalid''"
    by (simp add: file_rename_def Let_def luaL_checklstring_def arg_def filename_ok_def c_strlen_def
          c_str_def)
  note t = failed_validation_closes [OF xny_open, of "ram_driver 1" "[LString [0x61, 0, 0x62]]"]
  note to = t [THEN conjunct1, rule_format, OF o]
  note tr = t [THEN conjunct2, rule_format, OF r]
  have d: "drv (snd (file_open esp (ram_driver 1) [LString [0x61, 0, 0x62]] xny)) =
     \<lparr>content = [0x78, 0x0A, 0x79], pos = 0\<rparr>"
    using arg_cong [where f = drv, OF to [THEN conjunct2, THEN conjunct2]]
    by (simp add: xny_def ram_driver_def)
  show ?thesis
    using xny_open o r d to [THEN conjunct1] to [THEN conjunct2, THEN conjunct1] tr [THEN conjunct1]
    by (simp add: xny_def)
qed

end
